theory Spec2Isabelle
  imports Main
begin

section \<open>The Twig renderer: data model\<close>

text \<open>
  A shallow embedding of the class \<open>TwigRenderer\<close> (the supervisor of the PHP worker
  process and the dispatcher of render requests) and of the part of the Vite plugin
  glue that constructs it. Every method is a function that takes the instance and
  returns it updated; what an awaited operation of the host answers (the operating
  system's port, the file system, the HTTP round-trip) is an argument of the function.
\<close>

datatype serverStates = STOPPED | STARTING | READY | STOPPING

text \<open>
  An awaited promise either resolves with a value or rejects with an error, of which the
  code reads only \<open>message\<close>.
\<close>

datatype 'a settled = Rejected string | Resolved 'a

text \<open>
  What a call hands back to its caller: a value, or an exception thrown at the caller.
\<close>

datatype 'a outcome = Returned 'a | Threw string

subsection \<open>Configuration\<close>

record alterItem =
  alterFile :: string
  alterFunctions :: "string list"

record namespace =
  nsId :: string
  paths :: "string list"
  recursive :: bool

text \<open>
  The configuration object, with the properties the code reads. A property that is
  missing (\<open>undefined\<close>) is \<open>None\<close>. \<open>roots\<close> and \<open>namespaces\<close> are the two
  properties of \<open>config.src\<close>.
\<close>

record config =
  roots :: "string list"
  namespaces :: "namespace list option"
  relativeFrom :: "string option"
  alterTwigEnv :: "alterItem list option"
  debug :: "bool option"
  autoescape :: "bool option"
  keepAlive :: "bool option"
  maxConcurrency :: "int option"
  verbose :: "bool option"

text \<open>
  The host under which the constructor runs. \<open>config.schema.json\<close> is not among the
  sources, so the compiled validator is taken as given: \<open>schemaValid\<close> is its verdict
  and \<open>defaultKeepAlive\<close>, \<open>defaultMaxConcurrency\<close>, \<open>defaultVerbose\<close>,
  \<open>defaultDebug\<close> and \<open>defaultAutoescape\<close> are the defaults the schema declares
  (\<open>None\<close> where it declares none). The others are the functions of Node's \<open>path\<close>,
  \<open>fs\<close> and \<open>process\<close> modules the code calls, and \<open>getAllFolders\<close> of
  \<open>utils.js\<close>.
\<close>

record host =
  phpInstalled :: bool
  schemaValid :: "config \<Rightarrow> bool"
  schemaErrors :: "config \<Rightarrow> string"
  defaultDebug :: "bool option"
  defaultAutoescape :: "bool option"
  defaultKeepAlive :: "bool option"
  defaultMaxConcurrency :: "int option"
  defaultVerbose :: "bool option"
  nodeEnvTesting :: bool
  cwd :: string
  existsSync :: "string \<Rightarrow> bool"
  isAbsolute :: "string \<Rightarrow> bool"
  resolve :: "string \<Rightarrow> string \<Rightarrow> string"
  relative :: "string \<Rightarrow> string \<Rightarrow> string"
  getAllFolders :: "string \<Rightarrow> string \<Rightarrow> string list"

subsection \<open>The instance\<close>

text \<open>
  The fields of a \<open>TwigRenderer\<close>, followed by the effects the instance has had outside
  itself. The artifact \<open>shared-config--<port>.json\<close> is identified by its port.
  \<^item> \<open>phpServer\<close>: the port of the worker the handle refers to;
  \<^item> \<open>files\<close>: the configuration artifacts on disk;
  \<^item> \<open>spawned\<close>: the port of every worker launched, newest first;
  \<^item> \<open>listening\<close>: the workers whose close, exit and error observers are attached;
  \<^item> \<open>killed\<close>: the workers sent a termination signal, newest first;
  \<^item> \<open>timers\<close>: the delayed re-checks of \<open>closeServer\<close> not yet fired;
  \<^item> \<open>stopsInFlight\<close>: the calls of \<open>stop\<close> suspended at their clean-up;
  \<^item> \<open>sent\<close>: the POST requests issued to the worker (type and body), newest first.
\<close>

record body =
  template :: "string option"
  data :: "string option"

record renderer =
  portsUsed :: "nat set"
  serverState :: serverStates
  inProgressRequests :: int
  totalRequests :: int
  completedRequests :: int
  config :: config
  phpServerPort :: "nat option"
  sharedConfigPath :: "nat option"
  phpServer :: "nat option"
  files :: "nat set"
  spawned :: "nat list"
  listening :: "nat set"
  killed :: "nat list"
  timers :: nat
  stopsInFlight :: nat
  sent :: "(string \<times> body) list"

section \<open>Construction\<close>

text \<open>
  \<open>process.exit(1)\<close> ends the process; a \<open>throw\<close> reaches the caller of \<open>new\<close>.
\<close>

datatype abort = ProcessExit | Error string

text \<open>\<open>checkPhp\<close>: exits when \<open>php --version\<close> fails.\<close>

definition checkPhp :: "host \<Rightarrow> abort option" where
  "checkPhp h = (if phpInstalled h then None else Some ProcessExit)"

text \<open>
  The compiled validator was built with \<open>useDefaults\<close>: a property that is missing and
  has a default in the schema receives it; a property that is present is left as it is.
\<close>

definition orDefault :: "'a option \<Rightarrow> 'a option \<Rightarrow> 'a option" where
  "orDefault v d = (case v of None \<Rightarrow> d | Some x \<Rightarrow> Some x)"

definition assignDefaults :: "host \<Rightarrow> config \<Rightarrow> config" where
  "assignDefaults h c =
     c\<lparr>debug := orDefault (debug c) (defaultDebug h),
       autoescape := orDefault (autoescape c) (defaultAutoescape h),
       keepAlive := orDefault (keepAlive c) (defaultKeepAlive h),
       maxConcurrency := orDefault (maxConcurrency c) (defaultMaxConcurrency h),
       verbose := orDefault (verbose c) (defaultVerbose h)\<rparr>"

text \<open>
  \<open>checkPaths\<close> inside \<open>processPaths\<close>: every path must exist; with \<open>recursive\<close> a path
  is replaced by all its folders, and the lists are flattened.
\<close>

fun checkPaths :: "host \<Rightarrow> string \<Rightarrow> bool \<Rightarrow> string list \<Rightarrow> abort + string list" where
  "checkPaths h base rec [] = Inr []"
| "checkPaths h base rec (thePath # rest) =
     (let fullPath = resolve h base thePath;
          relPath = relative h base fullPath
      in if \<not> existsSync h fullPath
         then Inl (Error (''This file path does not exist, but was used in config: '' @ thePath))
         else (case checkPaths h base rec rest of
                 Inl e \<Rightarrow> Inl e
               | Inr checked \<Rightarrow>
                   Inr ((if rec then getAllFolders h fullPath base else [relPath]) @ checked)))"

fun checkNamespaces :: "host \<Rightarrow> string \<Rightarrow> namespace list \<Rightarrow> abort + namespace list" where
  "checkNamespaces h base [] = Inr []"
| "checkNamespaces h base (ns # rest) =
     (case checkPaths h base (recursive ns) (paths ns) of
        Inl e \<Rightarrow> Inl e
      | Inr ps \<Rightarrow>
          (case checkNamespaces h base rest of
             Inl e \<Rightarrow> Inl e
           | Inr checked \<Rightarrow>
               Inr (\<lparr>nsId = nsId ns, paths = ps, recursive = False\<rparr> # checked)))"

text \<open>
  \<open>processPaths\<close>. The constructor calls it after \<open>relativeFrom\<close> has been set (the
  \<open>None\<close> case below is not reached from there). The mapped namespaces (above) keep \<open>id\<close> and \<open>paths\<close> only, so that \<open>recursive\<close> is no longer set.
\<close>

definition processPaths :: "host \<Rightarrow> config \<Rightarrow> abort + config" where
  "processPaths h c =
     (let base = (case relativeFrom c of None \<Rightarrow> [] | Some f \<Rightarrow> f)
      in case checkPaths h base False (roots c) of
           Inl e \<Rightarrow> Inl e
         | Inr rs \<Rightarrow>
             (case namespaces c of
                None \<Rightarrow> Inr (c\<lparr>roots := rs\<rparr>)
              | Some nss \<Rightarrow>
                  (case checkNamespaces h base nss of
                     Inl e \<Rightarrow> Inl e
                   | Inr nss' \<Rightarrow>
                       Inr (c\<lparr>roots := rs, namespaces := Some nss'\<rparr>))))"

definition resolveAlterTwigEnv :: "host \<Rightarrow> string \<Rightarrow> alterItem \<Rightarrow> alterItem" where
  "resolveAlterTwigEnv h base item =
     \<lparr>alterFile = (if isAbsolute h (alterFile item) then alterFile item
                  else resolve h base (alterFile item)),
      alterFunctions = alterFunctions item\<rparr>"

text \<open>
  \<open>validateConfig\<close>. An empty \<open>relativeFrom\<close> and an empty \<open>alterTwigEnv\<close> behave as
  JavaScript has them: the empty string is falsy, the empty array is truthy.
\<close>

definition validateConfig :: "host \<Rightarrow> config \<Rightarrow> abort + config" where
  "validateConfig h c0 =
     (let c1 = assignDefaults h c0
      in if \<not> schemaValid h c0
         then (if nodeEnvTesting h
               then Inl (Error (''Error: Please check config passed into TwigRenderer.''
                                 @ [CHR 0x0A] @ schemaErrors h c0))
               else Inl ProcessExit)
         else
           (case (case relativeFrom c1 of
                    None \<Rightarrow> Inr (cwd h)
                  | Some f \<Rightarrow>
                      if f = [] then Inr (cwd h)
                      else if \<not> existsSync h f
                      then Inl (Error (''Uh oh, that file path does not exist: '' @ f))
                      else Inr (resolve h (cwd h) f)) of
              Inl e \<Rightarrow> Inl e
            | Inr base \<Rightarrow>
                processPaths h
                  (c1\<lparr>relativeFrom := Some base,
                       alterTwigEnv := map_option (map (resolveAlterTwigEnv h base))
                                         (alterTwigEnv c1)\<rparr>)))"

text \<open>
  The constructor: \<open>checkPhp\<close>, the initial fields, a copy of the user's configuration
  with \<open>verbose\<close> overwritten, then \<open>validateConfig\<close>.
\<close>

definition constructor :: "host \<Rightarrow> config \<Rightarrow> abort + renderer" where
  "constructor h userConfig =
     (case checkPhp h of
        Some e \<Rightarrow> Inl e
      | None \<Rightarrow>
          (case validateConfig h (userConfig\<lparr>verbose := Some True\<rparr>) of
             Inl e \<Rightarrow> Inl e
           | Inr c \<Rightarrow>
               Inr \<lparr>portsUsed = {}, serverState = STOPPED, inProgressRequests = 0,
                    totalRequests = 0, completedRequests = 0, config = c,
                    phpServerPort = None, sharedConfigPath = None, phpServer = None,
                    files = {}, spawned = [], listening = {}, killed = [],
                    timers = 0, stopsInFlight = 0, sent = []\<rparr>))"

text \<open>
  The configuration the plugin glue (\<open>renderTemplate\<close>) passes to the constructor, from
  the plugin options it reads: \<open>verbose\<close> is the option when set, otherwise \<open>false\<close>.
\<close>

record pluginOptions =
  optDebug :: "bool option"
  optAutoescape :: "bool option"
  optVerbose :: "bool option"

definition pluginConfig ::
  "string \<Rightarrow> string \<Rightarrow> namespace list \<Rightarrow> alterItem list \<Rightarrow> pluginOptions \<Rightarrow> config" where
  "pluginConfig root relRoot namespaceConfig alterTwigEnvConfig options =
     \<lparr>roots = [relRoot],
      namespaces = (if length namespaceConfig > 0 then Some namespaceConfig else None),
      relativeFrom = Some root,
      alterTwigEnv = (if length alterTwigEnvConfig > 0 then Some alterTwigEnvConfig else None),
      debug = Some (case optDebug options of None \<Rightarrow> True | Some b \<Rightarrow> b),
      autoescape = Some (case optAutoescape options of None \<Rightarrow> False | Some b \<Rightarrow> b),
      keepAlive = Some False,
      maxConcurrency = None,
      verbose = Some (case optVerbose options of None \<Rightarrow> False | Some b \<Rightarrow> b)\<rparr>"

section \<open>The worker process supervisor\<close>

text \<open>
  \<open>getOpenPort\<close>. The argument is the list of the ports \<open>getPort\<close> answers, in order:
  the first answer is taken unless the registry has it, in which case the next one is
  asked for. \<open>None\<close>: the loop is still running when the answers are used up.
\<close>

fun getOpenPort :: "nat list \<Rightarrow> renderer \<Rightarrow> (nat \<times> renderer) option" where
  "getOpenPort [] r = None"
| "getOpenPort (portSelected # answers) r =
     (if portSelected \<in> portsUsed r then getOpenPort answers r
      else Some (portSelected, r\<lparr>portsUsed := insert portSelected (portsUsed r)\<rparr>))"

text \<open>
  Successive calls of \<open>getOpenPort\<close> on one instance (one per start of a worker), each
  with the answers the operating system gives during it; the ports returned, in order.
\<close>

fun allocations :: "nat list list \<Rightarrow> renderer \<Rightarrow> (nat list \<times> renderer) option" where
  "allocations [] r = Some ([], r)"
| "allocations (answers # later) r =
     (case getOpenPort answers r of
        None \<Rightarrow> None
      | Some (p, r1) \<Rightarrow>
          (case allocations later r1 of
             None \<Rightarrow> None
           | Some (got, r2) \<Rightarrow> Some (p # got, r2)))"

text \<open>
  \<open>cleanupConfigFile\<close>: nothing without a path; otherwise the artifact is unlinked when
  it exists and the path is cleared (the \<open>finally\<close> block), whatever happened. The
  source logs and swallows an error of the file system here; the file system is taken
  to succeed.
\<close>

definition cleanupConfigFile :: "renderer \<Rightarrow> renderer" where
  "cleanupConfigFile r =
     (case sharedConfigPath r of
        None \<Rightarrow> r
      | Some path \<Rightarrow> r\<lparr>files := files r - {path}, sharedConfigPath := None\<rparr>)"

text \<open>
  The observers \<open>init\<close> attaches to the worker on port \<open>p\<close>. They run only while they
  are attached; \<open>stop\<close> detaches them.
\<close>

definition onClose :: "nat \<Rightarrow> renderer \<Rightarrow> renderer" where
  "onClose p r = (if p \<in> listening r then r\<lparr>serverState := STOPPING\<rparr> else r)"

definition onExit :: "nat \<Rightarrow> renderer \<Rightarrow> renderer" where
  "onExit p r =
     (if p \<in> listening r
      then (if serverState r \<noteq> STOPPING then cleanupConfigFile r else r)\<lparr>serverState := STOPPED\<rparr>
      else r)"

text \<open>
  \<open>stop\<close> runs in two parts. \<open>stopBegins\<close> is the part up to the first \<open>await\<close>: the
  guard against a double clean-up, the state \<open>STOPPING\<close>, the kill signal and the
  detaching of the observers. \<open>stopCompletes\<close> is the rest: the clean-up of the
  artifact and the state \<open>STOPPED\<close>. \<open>stopGuard\<close> is the guard's condition.
\<close>

definition stopGuard :: "renderer \<Rightarrow> bool" where
  "stopGuard r = (serverState r = STOPPED \<or> serverState r = STOPPING)"

definition stopBegins :: "renderer \<Rightarrow> renderer" where
  "stopBegins r =
     (let r1 = r\<lparr>serverState := STOPPING\<rparr>
      in case phpServer r1 of
           None \<Rightarrow> r1
         | Some p \<Rightarrow> r1\<lparr>killed := p # killed r1, listening := listening r1 - {p}\<rparr>)"

definition stopCompletes :: "renderer \<Rightarrow> renderer" where
  "stopCompletes r = (cleanupConfigFile r)\<lparr>serverState := STOPPED\<rparr>"

text \<open>\<open>await stop()\<close>: both parts, one after the other.\<close>

definition stop :: "renderer \<Rightarrow> renderer" where
  "stop r = (if stopGuard r then r else stopCompletes (stopBegins r))"

text \<open>
  \<open>stop()\<close> called and not awaited, as \<open>closeServer\<close> does: the first part runs at
  once, the second is left in flight and runs when \<open>stopSettles\<close> fires.
\<close>

definition stopUnawaited :: "renderer \<Rightarrow> renderer" where
  "stopUnawaited r =
     (if stopGuard r then r else (stopBegins r)\<lparr>stopsInFlight := stopsInFlight r + 1\<rparr>)"

definition stopSettles :: "renderer \<Rightarrow> renderer" where
  "stopSettles r =
     (if stopsInFlight r = 0 then r
      else (stopCompletes r)\<lparr>stopsInFlight := stopsInFlight r - 1\<rparr>)"

text \<open>
  \<open>closeServer\<close>. \<open>countersIdle\<close> is the condition on the counters that both checks
  share. The delayed check is a timer; \<open>timerFires\<close> is its callback, 300ms later.
\<close>

definition countersIdle :: "renderer \<Rightarrow> bool" where
  "countersIdle r = (completedRequests r = totalRequests r \<and> inProgressRequests r = 0)"

definition closeServer :: "renderer \<Rightarrow> renderer" where
  "closeServer r =
     (if keepAlive (config r) = Some False
      then (if countersIdle r \<and> (serverState r \<noteq> STOPPING \<or> serverState r \<noteq> STOPPED)
            then stopUnawaited r
            else r\<lparr>timers := timers r + 1\<rparr>)
      else r)"

definition timerFires :: "renderer \<Rightarrow> renderer" where
  "timerFires r =
     (if timers r = 0 then r
      else (let r1 = r\<lparr>timers := timers r - 1\<rparr>
            in if countersIdle r1 then stopUnawaited r1 else r1))"

text \<open>
  \<open>checkIfServerIsReady\<close>: the probe is the \<open>ok\<close> of the response of the worker, or
  the rejection of the fetch, which is swallowed.
\<close>

definition checkIfServerIsReady :: "bool settled \<Rightarrow> renderer \<Rightarrow> renderer" where
  "checkIfServerIsReady probe r =
     (case probe of
        Resolved ok \<Rightarrow> (if ok then r\<lparr>serverState := READY\<rparr> else r)
      | Rejected e \<Rightarrow> r)"

text \<open>
  While a call is suspended at an \<open>await\<close> of a polling loop, other callbacks of the
  instance run (observers, timers, other calls). What they do to the instance is an
  \<open>interference\<close>; each loop below takes one for each of its waits, and the
  properties proved of them hold whatever it is.
\<close>

type_synonym interference = "renderer \<Rightarrow> renderer"

text \<open>
  \<open>checkServerWhileStarting\<close>. Each round of the loop is a probe with what happens
  while it is awaited, and what happens during the 100ms sleep. \<open>None\<close>: the loop is
  still running when the rounds given are used up.
\<close>

record poll =
  duringProbe :: interference
  probe :: "bool settled"
  duringSleep :: interference

fun checkServerWhileStarting :: "poll list \<Rightarrow> renderer \<Rightarrow> renderer option" where
  "checkServerWhileStarting [] r = (if serverState r = STARTING then None else Some r)"
| "checkServerWhileStarting (p # later) r =
     (if serverState r = STARTING
      then checkServerWhileStarting later
             (duringSleep p (checkIfServerIsReady (probe p) (duringProbe p r)))
      else Some r)"

text \<open>
  \<open>init\<close>. The script holds what the host answers: the ports of \<open>getPort\<close>, the error of
  \<open>fs.writeFile\<close> if it fails, and the rounds of the readiness loop.
\<close>

record initScript =
  osPorts :: "nat list"
  writeFileError :: "string option"
  polls :: "poll list"

definition spawnWorker :: "nat \<Rightarrow> renderer \<Rightarrow> renderer" where
  "spawnWorker p r =
     r\<lparr>phpServer := Some p, spawned := p # spawned r, listening := insert p (listening r)\<rparr>"

text \<open>
  The part of \<open>init\<close> between the state \<open>STARTING\<close> and the readiness loop: the port,
  the artifact, the worker and its observers. It throws when the artifact cannot be
  written.
\<close>

definition launch ::
  "nat list \<Rightarrow> string option \<Rightarrow> renderer \<Rightarrow> (unit outcome \<times> renderer) option" where
  "launch answers writeError r =
     (case getOpenPort answers r of
        None \<Rightarrow> None
      | Some (port, r1) \<Rightarrow>
          (let r2 = r1\<lparr>phpServerPort := Some port, sharedConfigPath := Some port\<rparr>
           in case writeError of
                Some e \<Rightarrow> Some (Threw e, r2)
              | None \<Rightarrow>
                  Some (Returned (), spawnWorker port (r2\<lparr>files := insert port (files r2)\<rparr>))))"

definition init :: "initScript \<Rightarrow> renderer \<Rightarrow> (serverStates outcome \<times> renderer) option" where
  "init sc r =
     (if serverState r = STARTING then Some (Returned (serverState r), r)
      else if serverState r = STOPPING
      then (let r1 = r\<lparr>serverState := READY\<rparr> in Some (Returned (serverState r1), r1))
      else
        (case launch (osPorts sc) (writeFileError sc) (r\<lparr>serverState := STARTING\<rparr>) of
           None \<Rightarrow> None
         | Some (Threw e, r1) \<Rightarrow> Some (Threw e, r1)
         | Some (Returned u, r1) \<Rightarrow>
             (case checkServerWhileStarting (polls sc) r1 of
                None \<Rightarrow> None
              | Some r2 \<Rightarrow> Some (Returned (serverState r2), r2))))"

text \<open>
  The part of \<open>init\<close> that runs before its first \<open>await\<close>: the two guards and the state
  \<open>STARTING\<close>.
\<close>

definition initBegins :: "renderer \<Rightarrow> renderer" where
  "initBegins r =
     (if serverState r = STARTING then r
      else if serverState r = STOPPING then r\<lparr>serverState := READY\<rparr>
      else r\<lparr>serverState := STARTING\<rparr>)"

section \<open>The request dispatcher\<close>

text \<open>
  A render result as JavaScript has it: each of the three properties may be missing.
  The value of \<open>results\<close> is \<open>None\<close> when it is \<open>undefined\<close> or \<open>null\<close>, where reading
  a property throws a \<open>TypeError\<close>.
\<close>

record result =
  ok :: "bool option"
  message :: "string option"
  html :: "string option"

type_synonym results = "result option"

text \<open>
  The response of the worker, as far as the dispatcher reads it: the status, \<open>ok\<close>, the
  headers (\<open>headers.get\<close> is a lookup, \<open>None\<close> for \<open>null\<close>), and what \<open>res.json()\<close> and
  \<open>res.text()\<close> settle to. A JSON body that is \<open>null\<close> parses to \<open>None\<close>; a JSON value
  without a property leaves it missing.
\<close>

record response =
  status :: nat
  resOk :: bool
  headers :: "(string \<times> string) list"
  jsonBody :: "results settled"
  textBody :: "string settled"

definition headersGet :: "response \<Rightarrow> string \<Rightarrow> string option" where
  "headersGet res name = map_of (headers res) name"

text \<open>The counters, as \<open>request\<close> updates them.\<close>

definition requestEnters :: "renderer \<Rightarrow> renderer" where
  "requestEnters r = r\<lparr>totalRequests := totalRequests r + 1\<rparr>"

definition attemptBegins :: "string \<Rightarrow> body \<Rightarrow> renderer \<Rightarrow> renderer" where
  "attemptBegins type b r =
     r\<lparr>inProgressRequests := inProgressRequests r + 1, sent := (type, b) # sent r\<rparr>"

definition attemptSucceeds :: "renderer \<Rightarrow> renderer" where
  "attemptSucceeds r =
     r\<lparr>inProgressRequests := inProgressRequests r - 1,
       completedRequests := completedRequests r + 1\<rparr>"

definition attemptFails :: "renderer \<Rightarrow> renderer" where
  "attemptFails r = r\<lparr>inProgressRequests := inProgressRequests r - 1\<rparr>"

text \<open>
  The body of the \<open>try\<close> block after the fetch has settled: the value assigned to
  \<open>results\<close>, or the error that reaches the \<open>catch\<close> block.
\<close>

definition readResponse :: "response settled \<Rightarrow> results settled" where
  "readResponse fetched =
     (case fetched of
        Rejected e \<Rightarrow> Rejected e
      | Resolved res \<Rightarrow>
          (let contentType = headersGet res ''Content-Type'';
               warning = headersGet res ''Warning''
           in if contentType = Some ''application/json'' then jsonBody res
              else (case textBody res of
                      Rejected e \<Rightarrow> Rejected e
                    | Resolved t \<Rightarrow>
                        Resolved (Some \<lparr>ok = Some (resOk res), message = warning,
                                         html = Some t\<rparr>))))"

definition attempts :: nat where
  "attempts = 3"

text \<open>
  The retry loop. The list holds what each fetch settles to, in order; a fetch that
  never settles ends the list, and the loop does not return (\<open>None\<close>).
\<close>

fun retry ::
  "string \<Rightarrow> body \<Rightarrow> nat \<Rightarrow> response settled list \<Rightarrow> results \<Rightarrow> renderer
     \<Rightarrow> (results \<times> renderer) option" where
  "retry type b attempt [] results r =
     (if attempt < attempts then None else Some (results, r))"
| "retry type b attempt (fetched # later) results r =
     (if attempt < attempts
      then (let r1 = attemptBegins type b r
            in case readResponse fetched of
                 Resolved v \<Rightarrow> Some (v, attemptSucceeds r1)
               | Rejected e \<Rightarrow>
                   retry type b (attempt + 1) later
                     (Some \<lparr>ok = Some False, message = Some e, html = None\<rparr>)
                     (attemptFails r1))
      else Some (results, r))"

text \<open>
  The two waits of \<open>request\<close>, each a loop around a sleep of 250ms: for the state
  \<open>READY\<close>, and for the concurrency gate. A missing \<open>maxConcurrency\<close> compares as false.
\<close>

fun awaitReady :: "interference list \<Rightarrow> renderer \<Rightarrow> renderer option" where
  "awaitReady [] r = (if serverState r \<noteq> READY then None else Some r)"
| "awaitReady (during # later) r =
     (if serverState r \<noteq> READY then awaitReady later (during r) else Some r)"

definition gateClosed :: "renderer \<Rightarrow> bool" where
  "gateClosed r =
     (case maxConcurrency (config r) of
        None \<Rightarrow> False
      | Some m \<Rightarrow> inProgressRequests r > m)"

fun awaitGate :: "interference list \<Rightarrow> renderer \<Rightarrow> renderer option" where
  "awaitGate [] r = (if gateClosed r then None else Some r)"
| "awaitGate (during # later) r =
     (if gateClosed r then awaitGate later (during r) else Some r)"

text \<open>
  \<open>request\<close>. The script holds what happens during each wait and what the fetches
  settle to. \<open>admission\<close> is the method up to the retry loop; it throws when \<open>init\<close>
  does. The retry loop of one call is run here without other callbacks in between;
  calls that overlap are the subject of the last section.
\<close>

record script =
  initScript :: initScript
  readyWaits :: "interference list"
  gateWaits :: "interference list"
  fetches :: "response settled list"

definition admission :: "script \<Rightarrow> renderer \<Rightarrow> (unit outcome \<times> renderer) option" where
  "admission sc r =
     (let r1 = requestEnters r
      in case (if serverState r1 = STOPPED then init (initScript sc) r1
               else Some (Returned (serverState r1), r1)) of
           None \<Rightarrow> None
         | Some (Threw e, r2) \<Rightarrow> Some (Threw e, r2)
         | Some (Returned s, r2) \<Rightarrow>
             (case awaitReady (readyWaits sc) r2 of
                None \<Rightarrow> None
              | Some r3 \<Rightarrow>
                  (case awaitGate (gateWaits sc) r3 of
                     None \<Rightarrow> None
                   | Some r4 \<Rightarrow> Some (Returned (), r4))))"

definition request ::
  "string \<Rightarrow> body \<Rightarrow> script \<Rightarrow> renderer \<Rightarrow> (result outcome \<times> renderer) option" where
  "request type b sc r =
     (case admission sc r of
        None \<Rightarrow> None
      | Some (Threw e, r1) \<Rightarrow> Some (Threw e, r1)
      | Some (Returned u, r1) \<Rightarrow>
          (case retry type b 0 (fetches sc) None r1 of
             None \<Rightarrow> None
           | Some (None, r2) \<Rightarrow>
               Some (Threw ''TypeError: Cannot read properties of null (reading 'ok')'', r2)
           | Some (Some res, r2) \<Rightarrow> Some (Returned res, r2)))"

section \<open>The render facade\<close>

text \<open>
  \<open>render\<close>, \<open>renderString\<close> and \<open>getMeta\<close>. The data default to the empty object. When
  \<open>request\<close> throws, the call of \<open>closeServer\<close> is not reached.
\<close>

definition orEmptyObject :: "string option \<Rightarrow> string" where
  "orEmptyObject d = (case d of None \<Rightarrow> ''{}'' | Some x \<Rightarrow> x)"

definition render ::
  "string \<Rightarrow> string option \<Rightarrow> script \<Rightarrow> renderer \<Rightarrow> (result outcome \<times> renderer) option" where
  "render tpl d sc r =
     (case request ''renderFile'' \<lparr>template = Some tpl, data = Some (orEmptyObject d)\<rparr> sc r of
        None \<Rightarrow> None
      | Some (Threw e, r1) \<Rightarrow> Some (Threw e, r1)
      | Some (Returned res, r1) \<Rightarrow> Some (Returned res, closeServer r1))"

definition renderString ::
  "string \<Rightarrow> string option \<Rightarrow> script \<Rightarrow> renderer \<Rightarrow> (result outcome \<times> renderer) option" where
  "renderString tpl d sc r =
     (case request ''renderString'' \<lparr>template = Some tpl, data = Some (orEmptyObject d)\<rparr> sc r of
        None \<Rightarrow> None
      | Some (Threw e, r1) \<Rightarrow> Some (Threw e, r1)
      | Some (Returned res, r1) \<Rightarrow> Some (Returned res, closeServer r1))"

definition getMeta :: "script \<Rightarrow> renderer \<Rightarrow> (result outcome \<times> renderer) option" where
  "getMeta sc r = request ''meta'' \<lparr>template = None, data = None\<rparr> sc r"

section \<open>Calls in flight together\<close>

text \<open>
  Calls of \<open>request\<close> overlap: each runs until its next \<open>await\<close> and resumes when what it
  awaits has settled, while other calls and the supervisor's callbacks run in between.
  A call is at one of the places where \<open>request\<close> suspends: at \<open>await this.init()\<close>, at
  the sleep of either wait, or at the fetch of attempt \<open>n\<close>; or it has finished.
\<close>

datatype pc = AwaitingInit | PollingReady | PollingGate | InFlight nat | Finished

record call =
  callType :: string
  callBody :: body
  place :: pc

record system =
  self :: renderer
  calls :: "call list"

text \<open>The code of \<open>request\<close> from the gate, and from the wait for \<open>READY\<close>, up to the next \<open>await\<close>.\<close>

definition passGate :: "call \<Rightarrow> renderer \<Rightarrow> call \<times> renderer" where
  "passGate c r =
     (if gateClosed r then (c\<lparr>place := PollingGate\<rparr>, r)
      else (c\<lparr>place := InFlight 0\<rparr>, attemptBegins (callType c) (callBody c) r))"

definition passReady :: "call \<Rightarrow> renderer \<Rightarrow> call \<times> renderer" where
  "passReady c r =
     (if serverState r \<noteq> READY then (c\<lparr>place := PollingReady\<rparr>, r) else passGate c r)"

text \<open>The code of \<open>request\<close> from the fetch of attempt \<open>attempt\<close> having settled.\<close>

definition afterFetch :: "response settled \<Rightarrow> nat \<Rightarrow> call \<Rightarrow> renderer \<Rightarrow> call \<times> renderer" where
  "afterFetch fetched attempt c r =
     (case readResponse fetched of
        Resolved v \<Rightarrow> (c\<lparr>place := Finished\<rparr>, attemptSucceeds r)
      | Rejected e \<Rightarrow>
          (let r1 = attemptFails r
           in if attempt + 1 < attempts
              then (c\<lparr>place := InFlight (attempt + 1)\<rparr>,
                    attemptBegins (callType c) (callBody c) r1)
              else (c\<lparr>place := Finished\<rparr>, r1)))"

text \<open>
  What runs on the instance apart from \<open>request\<close>: a call of \<open>init\<close> up to its first
  \<open>await\<close>, the launch of a worker, a readiness probe, the observers of the worker on a
  port, \<open>stop\<close> and its completion, the timer of \<open>closeServer\<close>, and \<open>closeServer\<close>.
\<close>

datatype elsewhere =
    InitCalled
  | Launches "nat list" "string option"
  | Probes "bool settled"
  | Closes nat
  | Exits nat
  | StopCalled
  | StopSettles
  | TimerFires
  | CloseServerCalled

fun supervise :: "elsewhere \<Rightarrow> renderer \<Rightarrow> renderer option" where
  "supervise InitCalled r = Some (initBegins r)"
| "supervise (Launches answers writeError) r = map_option snd (launch answers writeError r)"
| "supervise (Probes p) r = Some (checkIfServerIsReady p r)"
| "supervise (Closes p) r = Some (onClose p r)"
| "supervise (Exits p) r = Some (onExit p r)"
| "supervise StopCalled r = Some (stopUnawaited r)"
| "supervise StopSettles r = Some (stopSettles r)"
| "supervise TimerFires r = Some (timerFires r)"
| "supervise CloseServerCalled r = Some (closeServer r)"

text \<open>
  One move of the system: a new call of \<open>request\<close> (run up to its first \<open>await\<close>), the
  \<open>init\<close> a call awaits returning or throwing, the sleep of a call ending, the fetch of
  a call settling, or something elsewhere. \<open>None\<close>: the move is not possible.
\<close>

datatype move =
    Calls string body
  | InitReturns nat
  | InitThrows nat
  | Wakes nat
  | FetchSettles nat "response settled"
  | Elsewhere elsewhere

definition resumed :: "nat \<Rightarrow> call \<times> renderer \<Rightarrow> system \<Rightarrow> system" where
  "resumed i cr s = \<lparr>self = snd cr, calls = (calls s)[i := fst cr]\<rparr>"

fun step :: "move \<Rightarrow> system \<Rightarrow> system option" where
  "step (Calls type b) s =
     (let r1 = requestEnters (self s);
          c = \<lparr>callType = type, callBody = b, place = AwaitingInit\<rparr>
      in if serverState r1 = STOPPED
         then Some \<lparr>self = initBegins r1, calls = calls s @ [c]\<rparr>
         else Some \<lparr>self = snd (passReady c r1), calls = calls s @ [fst (passReady c r1)]\<rparr>)"
| "step (InitReturns i) s =
     (if i < length (calls s) \<and> place (calls s ! i) = AwaitingInit
      then Some (resumed i (passReady (calls s ! i) (self s)) s)
      else None)"
| "step (InitThrows i) s =
     (if i < length (calls s) \<and> place (calls s ! i) = AwaitingInit
      then Some (resumed i ((calls s ! i)\<lparr>place := Finished\<rparr>, self s) s)
      else None)"
| "step (Wakes i) s =
     (if i < length (calls s) \<and> place (calls s ! i) = PollingReady
      then Some (resumed i (passReady (calls s ! i) (self s)) s)
      else if i < length (calls s) \<and> place (calls s ! i) = PollingGate
      then Some (resumed i (passGate (calls s ! i) (self s)) s)
      else None)"
| "step (FetchSettles i fetched) s =
     (if i < length (calls s)
      then (case place (calls s ! i) of
              InFlight attempt \<Rightarrow>
                Some (resumed i (afterFetch fetched attempt (calls s ! i) (self s)) s)
            | _ \<Rightarrow> None)
      else None)"
| "step (Elsewhere e) s =
     (case supervise e (self s) of
        None \<Rightarrow> None
      | Some r \<Rightarrow> Some (s\<lparr>self := r\<rparr>))"

fun run :: "move list \<Rightarrow> system \<Rightarrow> system option" where
  "run [] s = Some s"
| "run (m # ms) s = (case step m s of None \<Rightarrow> None | Some s1 \<Rightarrow> run ms s1)"

text \<open>The system of an instance on which no call has been made yet.\<close>

definition boot :: "renderer \<Rightarrow> system" where
  "boot r = \<lparr>self = r, calls = []\<rparr>"

definition unfinished :: "call list \<Rightarrow> nat" where
  "unfinished cs = length (filter (\<lambda>c. place c \<noteq> Finished) cs)"

section \<open>Properties: auxiliary notions\<close>

text \<open>The three counters of an instance.\<close>

definition counters :: "renderer \<Rightarrow> int \<times> int \<times> int" where
  "counters r = (totalRequests r, completedRequests r, inProgressRequests r)"

text \<open>
  The bookkeeping of a system: every call has been counted once, and the completed
  requests together with the calls that have not finished do not exceed the total.
\<close>

definition balanced :: "system \<Rightarrow> bool" where
  "balanced s =
     (totalRequests (self s) = int (length (calls s)) \<and>
      completedRequests (self s) + int (unfinished (calls s)) \<le> totalRequests (self s))"

text \<open>
  A message that is a non-empty string; and a settled fetch that hands \<open>request\<close> such a
  message whenever it hands it a failed result: a failure cause that is not empty, a
  \<open>Warning\<close> header on a raw response that is not successful, a message in a JSON result
  whose \<open>ok\<close> is false.
\<close>

definition nonEmpty :: "string option \<Rightarrow> bool" where
  "nonEmpty m = (case m of None \<Rightarrow> False | Some x \<Rightarrow> x \<noteq> [])"

definition carriesMessage :: "response settled \<Rightarrow> bool" where
  "carriesMessage fetched =
     (case readResponse fetched of
        Rejected e \<Rightarrow> e \<noteq> []
      | Resolved None \<Rightarrow> True
      | Resolved (Some res) \<Rightarrow> ok res = Some False \<longrightarrow> nonEmpty (message res))"

section \<open>An example run\<close>

text \<open>
  A host with PHP installed whose schema accepts every configuration, the configuration
  the plugin passes for a site at \<open>/site\<close> with templates under \<open>src\<close> and
  \<open>verbose: false\<close>, and the instance constructed from it.
\<close>

definition exampleHost :: host where
  "exampleHost =
     \<lparr>phpInstalled = True, schemaValid = (\<lambda>c. True), schemaErrors = (\<lambda>c. []),
      defaultDebug = None, defaultAutoescape = None, defaultKeepAlive = Some False,
      defaultMaxConcurrency = Some 10, defaultVerbose = Some False,
      nodeEnvTesting = False, cwd = ''/site'', existsSync = (\<lambda>p. True),
      isAbsolute = (\<lambda>p. take 1 p = ''/''),
      resolve = (\<lambda>a p. if take 1 p = ''/'' then p else a @ ''/'' @ p),
      relative = (\<lambda>a p. drop (length a + 1) p),
      getAllFolders = (\<lambda>p a. [p])\<rparr>"

definition exampleConfig :: config where
  "exampleConfig =
     pluginConfig ''/site'' ''src'' [] []
       \<lparr>optDebug = None, optAutoescape = None, optVerbose = Some False\<rparr>"

definition exampleRenderer :: renderer where
  "exampleRenderer =
     \<lparr>portsUsed = {}, serverState = STOPPED, inProgressRequests = 0, totalRequests = 0,
      completedRequests = 0,
      config = \<lparr>roots = [''src''], namespaces = None, relativeFrom = Some ''/site'',
                alterTwigEnv = None, debug = Some True, autoescape = Some False,
                keepAlive = Some False, maxConcurrency = Some 10, verbose = Some True\<rparr>,
      phpServerPort = None, sharedConfigPath = None, phpServer = None, files = {},
      spawned = [], listening = {}, killed = [], timers = 0, stopsInFlight = 0, sent = []\<rparr>"

text \<open>
  A first request: the operating system answers port 8001, the artifact is written, the
  first probe is refused and the second succeeds; no wait is needed afterwards.
  \<open>exampleAdmitted\<close> is the instance when the request reaches its retry loop.
\<close>

definition exampleBody :: body where
  "exampleBody = \<lparr>template = Some ''<p>{{ title }}</p>'', data = Some ''{}''\<rparr>"

definition exampleInit :: initScript where
  "exampleInit =
     \<lparr>osPorts = [8001], writeFileError = None,
      polls = [\<lparr>duringProbe = id, probe = Rejected ''ECONNREFUSED'', duringSleep = id\<rparr>,
               \<lparr>duringProbe = id, probe = Resolved True, duringSleep = id\<rparr>]\<rparr>"

definition exampleScript :: "response settled list \<Rightarrow> script" where
  "exampleScript fs = \<lparr>initScript = exampleInit, readyWaits = [], gateWaits = [], fetches = fs\<rparr>"

definition exampleAdmitted :: renderer where
  "exampleAdmitted =
     \<lparr>portsUsed = {8001}, serverState = READY, inProgressRequests = 0, totalRequests = 1,
      completedRequests = 0, config = config exampleRenderer,
      phpServerPort = Some 8001, sharedConfigPath = Some 8001, phpServer = Some 8001,
      files = {8001}, spawned = [8001], listening = {8001}, killed = [], timers = 0,
      stopsInFlight = 0, sent = []\<rparr>"

text \<open>
  A response that is not JSON: successful or not, with further headers, and its text.
\<close>

definition rawResponse :: "bool \<Rightarrow> (string \<times> string) list \<Rightarrow> string \<Rightarrow> response" where
  "rawResponse good further t =
     \<lparr>status = (if good then 200 else 500), resOk = good,
      headers = (''Content-Type'', ''text/html; charset=UTF-8'') # further,
      jsonBody = Rejected ''Unexpected token < in JSON at position 0'',
      textBody = Resolved t\<rparr>"

text \<open>
  The instance after the request has been served, and the instance when a result is
  returned while a second request is still in flight.
\<close>

definition exampleServed :: renderer where
  "exampleServed = exampleAdmitted\<lparr>completedRequests := 1\<rparr>"

definition exampleBusy :: renderer where
  "exampleBusy =
     exampleAdmitted\<lparr>totalRequests := 2, completedRequests := 1, inProgressRequests := 1\<rparr>"

text \<open>
  Two calls in flight together: the first starts the worker, the second arrives while
  it is starting and polls; the first is served at once, the second after a failed
  attempt.
\<close>

definition exampleMoves :: "move list" where
  "exampleMoves =
     [Calls ''renderString'' exampleBody,
      Calls ''renderFile'' exampleBody,
      Elsewhere (Launches [8001] None),
      Elsewhere (Probes (Resolved True)),
      InitReturns 0,
      Wakes 1,
      FetchSettles 1 (Rejected ''socket hang up''),
      FetchSettles 0 (Resolved (rawResponse True [] ''<p>Hi</p>'')),
      Elsewhere CloseServerCalled,
      FetchSettles 1 (Resolved (rawResponse True [] ''<p>Hi</p>'')),
      Elsewhere CloseServerCalled,
      Elsewhere TimerFires,
      Elsewhere StopSettles]"

section \<open>Properties of the construction\<close>

lemma processPaths_verbose: "processPaths h c = Inr c' \<Longrightarrow> verbose c' = verbose c"
  by (auto simp: processPaths_def Let_def split: sum.splits option.splits)

lemma validateConfig_verbose:
  "validateConfig h c = Inr c' \<Longrightarrow> verbose c' = orDefault (verbose c) (defaultVerbose h)"
  by (auto simp: validateConfig_def Let_def assignDefaults_def
      split: if_splits sum.splits option.splits dest!: processPaths_verbose)

lemma constructor_counters:
  "constructor h userConfig = Inr r \<Longrightarrow> totalRequests r = 0 \<and> completedRequests r = 0"
  by (auto simp: constructor_def split: option.splits sum.splits)

lemma example_constructed: "constructor exampleHost exampleConfig = Inr exampleRenderer"
  by (simp add: constructor_def checkPhp_def validateConfig_def assignDefaults_def
      orDefault_def processPaths_def exampleHost_def exampleConfig_def pluginConfig_def
      exampleRenderer_def Let_def)

text \<open>
  Claim C10. Whatever configuration the constructor is given, the configuration it
  stores has \<open>verbose\<close> set to true: the assignment after the copy overwrites the
  caller's value, and neither the defaults of the schema nor the processing of the
  paths touch it afterwards.
\<close>

theorem constructor_verbose:
  "constructor h userConfig = Inr r \<Longrightarrow> verbose (config r) = Some True"
  by (auto simp: constructor_def orDefault_def split: option.splits sum.splits
      dest!: validateConfig_verbose)

text \<open>
  The plugin's configuration with \<open>verbose: false\<close> is accepted, and the instance
  stores \<open>verbose: true\<close>.
\<close>

theorem constructor_verbose_witness:
  "constructor exampleHost exampleConfig = Inr exampleRenderer \<and>
   verbose exampleConfig = Some False \<and> verbose (config exampleRenderer) = Some True"
  using constructor_verbose[OF example_constructed] example_constructed
  by (simp add: exampleConfig_def pluginConfig_def)

section \<open>Properties of the port allocator\<close>

lemma getOpenPort_Some:
  "getOpenPort answers r = Some (p, r1) \<Longrightarrow>
     p \<notin> portsUsed r \<and> r1 = r\<lparr>portsUsed := insert p (portsUsed r)\<rparr> \<and>
     (\<exists>skipped later. answers = skipped @ p # later \<and> set skipped \<subseteq> portsUsed r)"
proof (induction answers)
  case Nil
  then show ?case by simp
next
  case (Cons a answers)
  show ?case
  proof (cases "a \<in> portsUsed r")
    case True
    with Cons.prems have "getOpenPort answers r = Some (p, r1)" by simp
    from Cons.IH[OF this] obtain skipped later where
      "answers = skipped @ p # later" "set skipped \<subseteq> portsUsed r"
      and rest: "p \<notin> portsUsed r" "r1 = r\<lparr>portsUsed := insert p (portsUsed r)\<rparr>" by blast
    with True have "a # answers = (a # skipped) @ p # later \<and> set (a # skipped) \<subseteq> portsUsed r"
      by simp
    with rest show ?thesis by blast
  next
    case False
    with Cons.prems have "p = a" "r1 = r\<lparr>portsUsed := insert p (portsUsed r)\<rparr>" by auto
    moreover have "a # answers = [] @ a # answers \<and> set [] \<subseteq> portsUsed r" by simp
    ultimately show ?thesis using False by blast
  qed
qed

lemma getOpenPort_returns:
  "\<exists>p \<in> set answers. p \<notin> portsUsed r \<Longrightarrow> getOpenPort answers r \<noteq> None"
  by (induction answers) auto

lemma allocations_distinct:
  "allocations sessions r = Some (got, r1) \<Longrightarrow>
     distinct got \<and> set got \<inter> portsUsed r = {} \<and> portsUsed r1 = portsUsed r \<union> set got"
proof (induction sessions arbitrary: r got r1)
  case Nil
  then show ?case by simp
next
  case (Cons answers sessions)
  from Cons.prems obtain p r2 got' where
    first: "getOpenPort answers r = Some (p, r2)"
    and later: "allocations sessions r2 = Some (got', r1)"
    and got: "got = p # got'"
    by (auto split: option.splits)
  from getOpenPort_Some[OF first] have fresh: "p \<notin> portsUsed r"
    and reg: "portsUsed r2 = insert p (portsUsed r)" by auto
  from Cons.IH[OF later] have "distinct got'" "set got' \<inter> portsUsed r2 = {}"
    "portsUsed r1 = portsUsed r2 \<union> set got'" by auto
  with fresh reg got show ?case by auto
qed

text \<open>
  Claim C8. A port that \<open>getOpenPort\<close> returns is not in the registry of the instance:
  it is the first answer of the operating system outside it, every answer before it
  having been in the registry, and the registry afterwards is the old one with that
  port added. The call returns as soon as the operating system gives an answer outside
  the registry. Over any number of successive calls on the instance the ports returned
  are pairwise distinct, none was in the registry at the start, and the registry has
  grown by exactly these ports.
\<close>

theorem getOpenPort_fresh:
  "(getOpenPort answers r = Some (p, r1) \<longrightarrow>
      p \<notin> portsUsed r \<and> portsUsed r1 = insert p (portsUsed r) \<and>
      (\<exists>skipped later. answers = skipped @ p # later \<and> set skipped \<subseteq> portsUsed r)) \<and>
   ((\<exists>q \<in> set answers. q \<notin> portsUsed r) \<longrightarrow> getOpenPort answers r \<noteq> None) \<and>
   (allocations sessions r = Some (got, r2) \<longrightarrow>
      distinct got \<and> set got \<inter> portsUsed r = {} \<and> portsUsed r \<subseteq> portsUsed r2 \<and>
      portsUsed r2 = portsUsed r \<union> set got)"
proof (intro conjI impI)
  assume a: "getOpenPort answers r = Some (p, r1)"
  from getOpenPort_Some[OF a] show "p \<notin> portsUsed r" by simp
  from getOpenPort_Some[OF a] show "portsUsed r1 = insert p (portsUsed r)" by simp
  from getOpenPort_Some[OF a]
  show "\<exists>skipped later. answers = skipped @ p # later \<and> set skipped \<subseteq> portsUsed r" by simp
next
  assume "\<exists>q \<in> set answers. q \<notin> portsUsed r"
  then show "getOpenPort answers r \<noteq> None" by (rule getOpenPort_returns)
next
  assume a: "allocations sessions r = Some (got, r2)"
  from allocations_distinct[OF a] show "distinct got" by simp
  from allocations_distinct[OF a] show "set got \<inter> portsUsed r = {}" by simp
  from allocations_distinct[OF a] show "portsUsed r \<subseteq> portsUsed r2" by auto
  from allocations_distinct[OF a] show "portsUsed r2 = portsUsed r \<union> set got" by simp
qed

text \<open>
  With port 8001 in the registry, the operating system answering 8001 twice and then
  8002 gets 8002; three starts of a worker, each offered the ports of the ones before,
  get three different ports.
\<close>

theorem getOpenPort_fresh_witness:
  "getOpenPort [8001, 8001, 8002] exampleAdmitted
     = Some (8002, exampleAdmitted\<lparr>portsUsed := {8002, 8001}\<rparr>) \<and>
   8002 \<notin> portsUsed exampleAdmitted \<and>
   map_option fst (allocations [ [8001], [8001, 8002], [8001, 8002, 8003] ] exampleRenderer)
     = Some [8001, 8002, 8003] \<and>
   distinct [8001, 8002, 8003 :: nat]"
proof -
  have one: "getOpenPort [8001, 8001, 8002] exampleAdmitted
      = Some (8002, exampleAdmitted\<lparr>portsUsed := {8002, 8001}\<rparr>)"
    by (simp add: exampleAdmitted_def)
  have "\<exists>r2. allocations [ [8001], [8001, 8002], [8001, 8002, 8003] ] exampleRenderer
      = Some ([8001, 8002, 8003], r2)"
    by (simp add: exampleRenderer_def)
  then obtain r2 where many:
    "allocations [ [8001], [8001, 8002], [8001, 8002, 8003] ] exampleRenderer
       = Some ([8001, 8002, 8003], r2)" ..
  from getOpenPort_fresh[of "[8001, 8001, 8002]" exampleAdmitted 8002
      "exampleAdmitted\<lparr>portsUsed := {8002, 8001}\<rparr>"
      "[ [8001], [8001, 8002], [8001, 8002, 8003] ]" "[8001, 8002, 8003]" r2] one many
  show ?thesis by simp
qed

section \<open>Properties of the supervisor\<close>

lemma checkServerWhileStarting_left:
  "checkServerWhileStarting ps r = Some r1 \<Longrightarrow> serverState r1 \<noteq> STARTING"
  by (induction ps arbitrary: r) (auto split: if_splits)

lemma example_init:
  "init exampleInit (requestEnters exampleRenderer) = Some (Returned READY, exampleAdmitted)"
  by (simp add: exampleInit_def exampleRenderer_def exampleAdmitted_def requestEnters_def
      init_def launch_def spawnWorker_def checkIfServerIsReady_def Let_def)

text \<open>
  Claim C7. Called while the state is \<open>STARTING\<close>, \<open>init\<close> returns at once and leaves
  the instance as it is: no port is taken, no artifact written, no worker spawned.
  Called while the state is \<open>STOPPING\<close>, it sets the state to \<open>READY\<close> and returns, and
  nothing else of the instance changes.
\<close>

theorem init_guards:
  "(serverState r = STARTING \<longrightarrow> init sc r = Some (Returned STARTING, r)) \<and>
   (serverState r = STOPPING \<longrightarrow>
      init sc r = Some (Returned READY, r\<lparr>serverState := READY\<rparr>) \<and>
      portsUsed (r\<lparr>serverState := READY\<rparr>) = portsUsed r \<and>
      files (r\<lparr>serverState := READY\<rparr>) = files r \<and>
      spawned (r\<lparr>serverState := READY\<rparr>) = spawned r)"
  by (simp add: init_def)

text \<open>
  A second call of \<open>init\<close> while a worker is starting on port 8001, and a call while
  \<open>stop\<close> is suspended at its clean-up.
\<close>

theorem init_guards_witness:
  "serverState (exampleAdmitted\<lparr>serverState := STARTING\<rparr>) = STARTING \<and>
   init exampleInit (exampleAdmitted\<lparr>serverState := STARTING\<rparr>)
     = Some (Returned STARTING, exampleAdmitted\<lparr>serverState := STARTING\<rparr>) \<and>
   serverState (stopUnawaited exampleServed) = STOPPING \<and>
   init exampleInit (stopUnawaited exampleServed)
     = Some (Returned READY, (stopUnawaited exampleServed)\<lparr>serverState := READY\<rparr>) \<and>
   spawned ((stopUnawaited exampleServed)\<lparr>serverState := READY\<rparr>) = [8001]"
proof -
  have a: "serverState (exampleAdmitted\<lparr>serverState := STARTING\<rparr>) = STARTING" by simp
  have b: "serverState (stopUnawaited exampleServed) = STOPPING"
    by (simp add: stopUnawaited_def stopGuard_def stopBegins_def exampleServed_def
        exampleAdmitted_def)
  have c: "spawned (stopUnawaited exampleServed) = [8001]"
    by (simp add: stopUnawaited_def stopGuard_def stopBegins_def exampleServed_def
        exampleAdmitted_def)
  from init_guards[of "exampleAdmitted\<lparr>serverState := STARTING\<rparr>" exampleInit]
    init_guards[of "stopUnawaited exampleServed" exampleInit] a b c
  show ?thesis by simp
qed

text \<open>
  Claim C4, as stated, fails: a call of \<open>init\<close> made while a first call is suspended
  at its port request returns at once, and the state is \<open>STARTING\<close> when it does.
\<close>

theorem init_returns_while_starting:
  "serverState (initBegins exampleRenderer) = STARTING \<and>
   init exampleInit (initBegins exampleRenderer)
     = Some (Returned STARTING, initBegins exampleRenderer)"
  by (simp add: init_def initBegins_def exampleRenderer_def)

text \<open>
  Claim C4, amended. A call of \<open>init\<close> made in any state other than \<open>STARTING\<close> does
  not return while the state is \<open>STARTING\<close>: when it returns, the state it returns is
  the state of the instance, and that is not \<open>STARTING\<close>, whatever the probes answer and
  whatever else runs during the readiness loop.
\<close>

theorem init_leaves_starting:
  "serverState r \<noteq> STARTING \<Longrightarrow> init sc r = Some (Returned s, r1) \<Longrightarrow>
     s \<noteq> STARTING \<and> serverState r1 = s"
  by (auto simp: init_def Let_def split: if_splits option.splits outcome.splits
      dest: checkServerWhileStarting_left)

text \<open>
  The first request on the example instance finds it \<open>STOPPED\<close>; \<open>init\<close> returns
  \<open>READY\<close> after the second probe.
\<close>

theorem init_leaves_starting_witness:
  "serverState (requestEnters exampleRenderer) \<noteq> STARTING \<and>
   init exampleInit (requestEnters exampleRenderer) = Some (Returned READY, exampleAdmitted) \<and>
   READY \<noteq> STARTING \<and> serverState exampleAdmitted = READY"
proof -
  have a: "serverState (requestEnters exampleRenderer) \<noteq> STARTING"
    by (simp add: requestEnters_def exampleRenderer_def)
  from init_leaves_starting[OF a example_init] a example_init show ?thesis by simp
qed

text \<open>
  When the worker exits during the readiness loop, \<open>init\<close> returns with the state
  \<open>STOPPED\<close>.
\<close>

lemma init_returns_stopped:
  "init (exampleInit\<lparr>polls := [\<lparr>duringProbe = id, probe = Rejected ''ECONNREFUSED'',
                                  duringSleep = onExit 8001\<rparr>]\<rparr>)
        (requestEnters exampleRenderer)
     = Some (Returned STOPPED,
             exampleAdmitted\<lparr>serverState := STOPPED, sharedConfigPath := None, files := {}\<rparr>)"
  by (simp add: exampleInit_def exampleRenderer_def exampleAdmitted_def requestEnters_def
      init_def launch_def spawnWorker_def checkIfServerIsReady_def onExit_def
      cleanupConfigFile_def Let_def)

section \<open>Properties of the dispatcher\<close>

lemma retry_exhausted:
  "\<not> attempt < attempts \<Longrightarrow> retry type b attempt fs results r = Some (results, r)"
  by (cases fs) auto

lemma retry_sent:
  "retry type b attempt fs results r = Some (v, r1) \<Longrightarrow>
     \<exists>n. n \<le> attempts - attempt \<and> sent r1 = replicate n (type, b) @ sent r"
proof (induction type b attempt fs results r rule: retry.induct)
  case (1 type b attempt results r)
  then show ?case by (auto split: if_splits intro: exI[of _ 0])
next
  case (2 type b attempt fetched later results r)
  show ?case
  proof (cases "attempt < attempts")
    case False
    with 2 show ?thesis by (auto intro: exI[of _ 0])
  next
    case True
    show ?thesis
    proof (cases "readResponse fetched")
      case (Resolved v')
      with True "2.prems" have "sent r1 = replicate 1 (type, b) @ sent r"
        by (auto simp: Let_def attemptBegins_def attemptSucceeds_def)
      with True show ?thesis by (intro exI[of _ 1]) auto
    next
      case (Rejected e)
      with True "2.prems" have rec: "retry type b (attempt + 1) later
          (Some \<lparr>ok = Some False, message = Some e, html = None\<rparr>)
          (attemptFails (attemptBegins type b r)) = Some (v, r1)"
        by (simp add: Let_def)
      from "2.IH"[OF True refl Rejected rec] obtain n where
        n: "n \<le> attempts - (attempt + 1)"
        "sent r1 = replicate n (type, b) @ sent (attemptFails (attemptBegins type b r))" by blast
      then have "sent r1 = replicate (Suc n) (type, b) @ sent r"
        by (simp add: attemptFails_def attemptBegins_def replicate_append_same)
      with n True show ?thesis by (intro exI[of _ "Suc n"]) auto
    qed
  qed
qed

lemma retry_three_failures:
  "retry type b 0 (Rejected e1 # Rejected e2 # Rejected e3 # later) results r =
     Some (Some \<lparr>ok = Some False, message = Some e3, html = None\<rparr>,
           attemptFails (attemptBegins type b (attemptFails (attemptBegins type b
             (attemptFails (attemptBegins type b r))))))"
proof -
  have "retry type b (Suc (Suc (Suc 0))) later x y = Some (x, y)" for x y
    by (rule retry_exhausted) (simp add: attempts_def)
  then show ?thesis
    by (simp add: readResponse_def Let_def attempts_def)
qed

lemma request_after_admission:
  "admission sc r = Some (Returned u, r1) \<Longrightarrow>
   request type b sc r =
     (case retry type b 0 (fetches sc) None r1 of
        None \<Rightarrow> None
      | Some (None, r2) \<Rightarrow>
          Some (Threw ''TypeError: Cannot read properties of null (reading 'ok')'', r2)
      | Some (Some res, r2) \<Rightarrow> Some (Returned res, r2))"
  by (simp add: request_def)

lemma retry_message:
  "retry type b attempt fs results r = Some (Some res, r1) \<Longrightarrow>
   ok res = Some False \<Longrightarrow>
   list_all carriesMessage (take (attempts - attempt) fs) \<Longrightarrow>
   (\<forall>prev. results = Some prev \<longrightarrow> ok prev = Some False \<longrightarrow> nonEmpty (message prev)) \<Longrightarrow>
   nonEmpty (message res)"
proof (induction type b attempt fs results r rule: retry.induct)
  case (1 type b attempt results r)
  then show ?case by (auto split: if_splits)
next
  case (2 type b attempt fetched later results r)
  show ?case
  proof (cases "attempt < attempts")
    case False
    with 2 show ?thesis by auto
  next
    case True
    then have "attempts - attempt = Suc (attempts - (attempt + 1))" by simp
    then have tk: "take (attempts - attempt) (fetched # later) =
        fetched # take (attempts - (attempt + 1)) later"
      by (simp only: take_Suc_Cons)
    with "2.prems"(3) have cm: "carriesMessage fetched"
      and rest: "list_all carriesMessage (take (attempts - (attempt + 1)) later)" by auto
    show ?thesis
    proof (cases "readResponse fetched")
      case (Resolved v')
      with True "2.prems"(1) have "v' = Some res" by (auto simp: Let_def)
      with Resolved cm "2.prems"(2) show ?thesis by (simp add: carriesMessage_def)
    next
      case (Rejected e)
      with True "2.prems"(1) have rec: "retry type b (attempt + 1) later
          (Some \<lparr>ok = Some False, message = Some e, html = None\<rparr>)
          (attemptFails (attemptBegins type b r)) = Some (Some res, r1)"
        by (simp add: Let_def)
      from Rejected cm have "e \<noteq> []" by (simp add: carriesMessage_def)
      then have "\<forall>prev. Some \<lparr>ok = Some False, message = Some e, html = None\<rparr> = Some prev \<longrightarrow>
          ok prev = Some False \<longrightarrow> nonEmpty (message prev)"
        by (auto simp: nonEmpty_def)
      from "2.IH"[OF True refl Rejected rec "2.prems"(2) rest this] show ?thesis .
    qed
  qed
qed

lemma example_admission:
  "admission (exampleScript fs) exampleRenderer = Some (Returned (), exampleAdmitted)"
  by (simp add: admission_def exampleScript_def exampleInit_def exampleRenderer_def
      exampleAdmitted_def requestEnters_def init_def launch_def spawnWorker_def
      checkIfServerIsReady_def gateClosed_def Let_def)

lemma example_request:
  "request type b (exampleScript fs) exampleRenderer =
     (case retry type b 0 fs None exampleAdmitted of
        None \<Rightarrow> None
      | Some (None, r2) \<Rightarrow>
          Some (Threw ''TypeError: Cannot read properties of null (reading 'ok')'', r2)
      | Some (Some res, r2) \<Rightarrow> Some (Returned res, r2))"
  by (simp add: request_def example_admission) (simp add: exampleScript_def)

lemma example_raw:
  "request type b (exampleScript (Resolved (rawResponse good further t) # later))
     exampleRenderer =
   Some (Returned \<lparr>ok = Some good, message = map_of further ''Warning'', html = Some t\<rparr>,
         attemptSucceeds (attemptBegins type b exampleAdmitted))"
  by (simp add: example_request attempts_def readResponse_def headersGet_def rawResponse_def
      Let_def)

text \<open>
  Claim C2. Once a request has been admitted to its retry loop, it issues at most three
  network calls before it hands anything back. When the first three fetches all
  reject, it returns, as a value, the failed result whose message is the cause of the
  third rejection; the counter of completed requests is where it was at admission, and
  so are the other two counters.
\<close>

theorem request_retries:
  assumes "admission sc r = Some (Returned u, r1)"
  shows "(\<forall>out r2. request type b sc r = Some (out, r2) \<longrightarrow>
            (\<exists>n \<le> 3. sent r2 = replicate n (type, b) @ sent r1)) \<and>
         (fetches sc = Rejected e1 # Rejected e2 # Rejected e3 # later \<longrightarrow>
            (\<exists>r2. request type b sc r =
                     Some (Returned \<lparr>ok = Some False, message = Some e3, html = None\<rparr>, r2) \<and>
                   completedRequests r2 = completedRequests r1 \<and>
                   inProgressRequests r2 = inProgressRequests r1 \<and>
                   totalRequests r2 = totalRequests r1 \<and>
                   sent r2 = replicate 3 (type, b) @ sent r1))"
proof (intro conjI allI impI)
  fix out r2
  assume "request type b sc r = Some (out, r2)"
  with request_after_admission[OF assms, of type b]
  obtain v where "retry type b 0 (fetches sc) None r1 = Some (v, r2)"
    by (auto split: option.splits)
  from retry_sent[OF this] show "\<exists>n \<le> 3. sent r2 = replicate n (type, b) @ sent r1"
    by (simp add: attempts_def)
next
  assume "fetches sc = Rejected e1 # Rejected e2 # Rejected e3 # later"
  then have "retry type b 0 (fetches sc) None r1 =
     Some (Some \<lparr>ok = Some False, message = Some e3, html = None\<rparr>,
           attemptFails (attemptBegins type b (attemptFails (attemptBegins type b
             (attemptFails (attemptBegins type b r1))))))"
    by (simp only: retry_three_failures)
  then show "\<exists>r2. request type b sc r =
                     Some (Returned \<lparr>ok = Some False, message = Some e3, html = None\<rparr>, r2) \<and>
                   completedRequests r2 = completedRequests r1 \<and>
                   inProgressRequests r2 = inProgressRequests r1 \<and>
                   totalRequests r2 = totalRequests r1 \<and>
                   sent r2 = replicate 3 (type, b) @ sent r1"
    by (simp add: request_after_admission[OF assms] attemptFails_def attemptBegins_def
        numeral_3_eq_3)
qed

text \<open>
  The first request on the example instance, with the worker refusing the connection
  three times and a fourth answer that is never asked for.
\<close>

theorem request_retries_witness:
  "admission
     (exampleScript [Rejected ''ECONNREFUSED'', Rejected ''ECONNRESET'',
                     Rejected ''socket hang up'',
                     Resolved (rawResponse True [] ''<p>Hi</p>'')])
     exampleRenderer = Some (Returned (), exampleAdmitted) \<and>
   map_option fst
     (request ''renderFile'' exampleBody
        (exampleScript [Rejected ''ECONNREFUSED'', Rejected ''ECONNRESET'',
                        Rejected ''socket hang up'',
                        Resolved (rawResponse True [] ''<p>Hi</p>'')])
        exampleRenderer)
     = Some (Returned \<lparr>ok = Some False, message = Some ''socket hang up'', html = None\<rparr>) \<and>
   map_option (completedRequests \<circ> snd)
     (request ''renderFile'' exampleBody
        (exampleScript [Rejected ''ECONNREFUSED'', Rejected ''ECONNRESET'',
                        Rejected ''socket hang up'',
                        Resolved (rawResponse True [] ''<p>Hi</p>'')])
        exampleRenderer)
     = Some (completedRequests exampleAdmitted)"
proof -
  have f: "fetches (exampleScript [Rejected ''ECONNREFUSED'', Rejected ''ECONNRESET'',
                     Rejected ''socket hang up'',
                     Resolved (rawResponse True [] ''<p>Hi</p>'')])
      = Rejected ''ECONNREFUSED'' # Rejected ''ECONNRESET'' # Rejected ''socket hang up'' #
        [Resolved (rawResponse True [] ''<p>Hi</p>'')]"
    by (simp add: exampleScript_def)
  from request_retries[OF example_admission, where type = "''renderFile''" and b = exampleBody] f
  obtain r2 where
    "request ''renderFile'' exampleBody
       (exampleScript [Rejected ''ECONNREFUSED'', Rejected ''ECONNRESET'',
                       Rejected ''socket hang up'',
                       Resolved (rawResponse True [] ''<p>Hi</p>'')])
       exampleRenderer
     = Some (Returned \<lparr>ok = Some False, message = Some ''socket hang up'', html = None\<rparr>, r2)"
    "completedRequests r2 = completedRequests exampleAdmitted"
    by blast
  with example_admission show ?thesis by simp
qed

text \<open>
  Claim C5, as stated, fails: for a response that is not JSON, is successful and has
  no \<open>Warning\<close> header, the message of the result is \<open>null\<close>, the value \<open>headers.get\<close>
  gives for a header that is absent, and not the empty string.
\<close>

theorem request_raw_message_null:
  "headersGet (rawResponse True [] ''<p>Hi</p>'') ''Warning'' = None \<and>
   map_option fst
     (request ''renderString'' exampleBody
        (exampleScript [Resolved (rawResponse True [] ''<p>Hi</p>'')]) exampleRenderer)
     = Some (Returned \<lparr>ok = Some True, message = None, html = Some ''<p>Hi</p>''\<rparr>) \<and>
   map_option fst
     (request ''renderString'' exampleBody
        (exampleScript [Resolved (rawResponse True [] ''<p>Hi</p>'')]) exampleRenderer)
     \<noteq> Some (Returned \<lparr>ok = Some True, message = Some [], html = Some ''<p>Hi</p>''\<rparr>)"
  by (simp add: example_raw) (simp add: headersGet_def rawResponse_def)

text \<open>
  Claim C5, amended. When the response of the worker is not of type
  \<open>application/json\<close>, is successful and has no \<open>Warning\<close> header, \<open>request\<close> returns
  the result whose \<open>ok\<close> is true, whose \<open>html\<close> is the text of the response and whose
  message is \<open>null\<close>; the request is counted as completed.
\<close>

theorem request_raw_output:
  assumes "admission sc r = Some (Returned u, r1)"
    and "fetches sc = Resolved res # later"
    and "headersGet res ''Content-Type'' \<noteq> Some ''application/json''"
    and "resOk res"
    and "headersGet res ''Warning'' = None"
    and "textBody res = Resolved t"
  shows "\<exists>r2. request type b sc r =
           Some (Returned \<lparr>ok = Some True, message = None, html = Some t\<rparr>, r2) \<and>
           completedRequests r2 = completedRequests r1 + 1"
  using assms request_after_admission[OF assms(1), of type b]
  by (simp add: attempts_def readResponse_def Let_def attemptSucceeds_def attemptBegins_def)

text \<open>The first request on the example instance, answered with a page of HTML.\<close>

theorem request_raw_output_witness:
  "admission (exampleScript [Resolved (rawResponse True [] ''<p>Hi</p>'')]) exampleRenderer
     = Some (Returned (), exampleAdmitted) \<and>
   headersGet (rawResponse True [] ''<p>Hi</p>'') ''Content-Type''
     = Some ''text/html; charset=UTF-8'' \<and>
   resOk (rawResponse True [] ''<p>Hi</p>'') \<and>
   headersGet (rawResponse True [] ''<p>Hi</p>'') ''Warning'' = None \<and>
   textBody (rawResponse True [] ''<p>Hi</p>'') = Resolved ''<p>Hi</p>'' \<and>
   map_option fst
     (request ''renderFile'' exampleBody
        (exampleScript [Resolved (rawResponse True [] ''<p>Hi</p>'')]) exampleRenderer)
     = Some (Returned \<lparr>ok = Some True, message = None, html = Some ''<p>Hi</p>''\<rparr>) \<and>
   map_option (completedRequests \<circ> snd)
     (request ''renderFile'' exampleBody
        (exampleScript [Resolved (rawResponse True [] ''<p>Hi</p>'')]) exampleRenderer)
     = Some 1"
proof -
  have f: "fetches (exampleScript [Resolved (rawResponse True [] ''<p>Hi</p>'')])
      = Resolved (rawResponse True [] ''<p>Hi</p>'') # []"
    by (simp add: exampleScript_def)
  have h: "headersGet (rawResponse True [] ''<p>Hi</p>'') ''Content-Type''
      = Some ''text/html; charset=UTF-8''"
    "resOk (rawResponse True [] ''<p>Hi</p>'')"
    "headersGet (rawResponse True [] ''<p>Hi</p>'') ''Warning'' = None"
    "textBody (rawResponse True [] ''<p>Hi</p>'') = Resolved ''<p>Hi</p>''"
    by (simp_all add: headersGet_def rawResponse_def)
  from h(1) have c: "headersGet (rawResponse True [] ''<p>Hi</p>'') ''Content-Type''
      \<noteq> Some ''application/json''" by simp
  from request_raw_output[OF example_admission f c h(2) h(3) h(4),
      where type = "''renderFile''" and b = exampleBody]
  obtain r2 where
    "request ''renderFile'' exampleBody
       (exampleScript [Resolved (rawResponse True [] ''<p>Hi</p>'')]) exampleRenderer
     = Some (Returned \<lparr>ok = Some True, message = None, html = Some ''<p>Hi</p>''\<rparr>, r2)"
    "completedRequests r2 = completedRequests exampleAdmitted + 1"
    by blast
  with example_admission h show ?thesis by (simp add: exampleAdmitted_def)
qed

text \<open>
  Claim C6, as stated, fails: for a response that is not JSON, is not successful and
  has no \<open>Warning\<close> header, \<open>request\<close> returns a result whose \<open>ok\<close> is false and whose
  message is \<open>null\<close>.
\<close>

theorem request_failed_without_message:
  "map_option fst
     (request ''renderString'' exampleBody
        (exampleScript [Resolved (rawResponse False [] ''Fatal error'')]) exampleRenderer)
     = Some (Returned \<lparr>ok = Some False, message = None, html = Some ''Fatal error''\<rparr>) \<and>
   \<not> nonEmpty (message \<lparr>ok = Some False, message = None, html = Some ''Fatal error''\<rparr>)"
  by (simp add: example_raw nonEmpty_def)

text \<open>
  Claim C6, amended. \<open>request\<close> copies the message of a result from what the fetch
  gave it and adds none of its own: when every fetch of the request carries a
  non-empty message for a failure (a rejection with a non-empty cause, a raw response
  that is not successful with a non-empty \<open>Warning\<close> header, a JSON result whose \<open>ok\<close>
  is false with a non-empty message), a returned result whose \<open>ok\<close> is false has a
  non-empty message.
\<close>

theorem request_failure_message:
  assumes "request type b sc r = Some (Returned res, r1)"
    and "ok res = Some False"
    and "list_all carriesMessage (take attempts (fetches sc))"
  shows "nonEmpty (message res)"
proof -
  from assms(1) obtain u r0 where adm: "admission sc r = Some (Returned u, r0)"
    by (auto simp: request_def split: option.splits outcome.splits)
  with assms(1) request_after_admission[OF adm, of type b]
  have "retry type b 0 (fetches sc) None r0 = Some (Some res, r1)"
    by (auto split: option.splits)
  from retry_message[OF this assms(2)] assms(3) show ?thesis by simp
qed

text \<open>
  The first request on the example instance: the connection is refused once, then the
  worker answers with an error page and a \<open>Warning\<close> header.
\<close>

theorem request_failure_message_witness:
  "list_all carriesMessage
     (take attempts
        (fetches (exampleScript
           [Rejected ''ECONNREFUSED'',
            Resolved (rawResponse False [(''Warning'', ''Template not found'')] ''Oops'')]))) \<and>
   map_option fst
     (request ''renderFile'' exampleBody
        (exampleScript
           [Rejected ''ECONNREFUSED'',
            Resolved (rawResponse False [(''Warning'', ''Template not found'')] ''Oops'')])
        exampleRenderer)
     = Some (Returned \<lparr>ok = Some False, message = Some ''Template not found'',
                        html = Some ''Oops''\<rparr>) \<and>
   nonEmpty (message \<lparr>ok = Some False, message = Some ''Template not found'',
                       html = Some ''Oops''\<rparr>)"
proof -
  have c: "list_all carriesMessage
     (take attempts
        (fetches (exampleScript
           [Rejected ''ECONNREFUSED'',
            Resolved (rawResponse False [(''Warning'', ''Template not found'')] ''Oops'')])))"
    by (simp add: exampleScript_def attempts_def carriesMessage_def readResponse_def
        headersGet_def rawResponse_def nonEmpty_def Let_def)
  have "\<exists>r1. request ''renderFile'' exampleBody
        (exampleScript
           [Rejected ''ECONNREFUSED'',
            Resolved (rawResponse False [(''Warning'', ''Template not found'')] ''Oops'')])
        exampleRenderer
     = Some (Returned \<lparr>ok = Some False, message = Some ''Template not found'',
                        html = Some ''Oops''\<rparr>, r1)"
    by (simp add: example_request attempts_def readResponse_def headersGet_def rawResponse_def
        Let_def)
  then obtain r1 where q: "request ''renderFile'' exampleBody
        (exampleScript
           [Rejected ''ECONNREFUSED'',
            Resolved (rawResponse False [(''Warning'', ''Template not found'')] ''Oops'')])
        exampleRenderer
     = Some (Returned \<lparr>ok = Some False, message = Some ''Template not found'',
                        html = Some ''Oops''\<rparr>, r1)" ..
  from request_failure_message[OF q _ c] c q show ?thesis by simp
qed

section \<open>Properties of the facade and of the idle shutdown\<close>

lemma render_Returned:
  "render tpl d sc r = Some (Returned res, r2) \<Longrightarrow>
     \<exists>r1. request ''renderFile'' \<lparr>template = Some tpl, data = Some (orEmptyObject d)\<rparr> sc r
             = Some (Returned res, r1) \<and> r2 = closeServer r1"
  by (auto simp: render_def split: option.splits outcome.splits)

lemma renderString_Returned:
  "renderString tpl d sc r = Some (Returned res, r2) \<Longrightarrow>
     \<exists>r1. request ''renderString'' \<lparr>template = Some tpl, data = Some (orEmptyObject d)\<rparr> sc r
             = Some (Returned res, r1) \<and> r2 = closeServer r1"
  by (auto simp: renderString_def split: option.splits outcome.splits)

lemma closeServer_idle:
  "keepAlive (config r) = Some False \<Longrightarrow> countersIdle r \<Longrightarrow> closeServer r = stopUnawaited r"
  by (auto simp: closeServer_def)

lemma closeServer_busy:
  "keepAlive (config r) = Some False \<Longrightarrow> \<not> countersIdle r \<Longrightarrow>
     closeServer r = r\<lparr>timers := timers r + 1\<rparr>"
  by (simp add: closeServer_def)

text \<open>With \<open>keepAlive\<close> true or missing, \<open>closeServer\<close> does nothing.\<close>

lemma closeServer_keepAlive:
  "keepAlive (config r) \<noteq> Some False \<Longrightarrow> closeServer r = r"
  by (simp add: closeServer_def)

lemma stopUnawaited_state:
  "\<not> stopGuard r \<Longrightarrow> serverState (stopUnawaited r) = STOPPING"
  by (simp add: stopUnawaited_def stopBegins_def Let_def split: option.splits)

lemma stopUnawaited_killed:
  "\<not> stopGuard r \<Longrightarrow> phpServer r = Some p \<Longrightarrow> killed (stopUnawaited r) = p # killed r"
  by (simp add: stopUnawaited_def stopBegins_def Let_def)

lemma stopUnawaited_settles:
  "\<not> stopGuard r \<Longrightarrow> serverState (stopSettles (stopUnawaited r)) = STOPPED"
  by (simp add: stopUnawaited_def stopSettles_def stopCompletes_def)

lemma timerFires_recheck:
  "0 < timers r \<Longrightarrow>
     timerFires r = (if countersIdle r then stopUnawaited (r\<lparr>timers := timers r - 1\<rparr>)
                     else r\<lparr>timers := timers r - 1\<rparr>)"
  by (simp add: timerFires_def Let_def countersIdle_def)

lemma example_served:
  "attemptSucceeds (attemptBegins type b exampleAdmitted) = exampleServed\<lparr>sent := [(type, b)]\<rparr>"
  by (simp add: attemptSucceeds_def attemptBegins_def exampleServed_def exampleAdmitted_def)

lemma example_stopping:
  "closeServer (exampleServed\<lparr>sent := s\<rparr>)
     = exampleServed\<lparr>sent := s, serverState := STOPPING, killed := [8001], listening := {},
                     stopsInFlight := 1\<rparr>"
  by (simp add: closeServer_def countersIdle_def stopUnawaited_def stopGuard_def
      stopBegins_def exampleServed_def exampleAdmitted_def exampleRenderer_def)

text \<open>
  Claim C9, as stated, fails: \<open>render\<close> does more than delegate. On the example
  instance \<open>request\<close> leaves the worker \<open>READY\<close>, while \<open>render\<close> with the same
  arguments leaves it \<open>STOPPING\<close> with the kill signal sent.
\<close>

theorem render_stops_worker:
  "map_option (serverState \<circ> snd)
     (request ''renderFile'' \<lparr>template = Some ''page.twig'', data = Some ''{}''\<rparr>
        (exampleScript [Resolved (rawResponse True [] ''<p>Hi</p>'')]) exampleRenderer)
     = Some READY \<and>
   map_option (serverState \<circ> snd)
     (render ''page.twig'' None
        (exampleScript [Resolved (rawResponse True [] ''<p>Hi</p>'')]) exampleRenderer)
     = Some STOPPING \<and>
   map_option (killed \<circ> snd)
     (render ''page.twig'' None
        (exampleScript [Resolved (rawResponse True [] ''<p>Hi</p>'')]) exampleRenderer)
     = Some [8001]"
  by (simp add: render_def example_raw example_served example_stopping orEmptyObject_def)
    (simp add: exampleServed_def exampleAdmitted_def)

text \<open>
  Claim C9, amended. \<open>render\<close> hands back what \<open>request\<close> hands back for the type
  \<open>renderFile\<close> and the body made of the template path and the data, and
  \<open>renderString\<close> what \<open>request\<close> hands back for the type \<open>renderString\<close> and the body
  made of the template source and the data: the same result, unchanged, the same
  exception, or neither when \<open>request\<close> does not return. Besides delegating, both call
  \<open>closeServer\<close> on the instance once \<open>request\<close> has returned a result. \<open>getMeta\<close> is
  \<open>request\<close> for the type \<open>meta\<close> and nothing else.
\<close>

theorem facade_delegates:
  "map_option fst (render tpl d sc r) =
     map_option fst (request ''renderFile''
                       \<lparr>template = Some tpl, data = Some (orEmptyObject d)\<rparr> sc r) \<and>
   map_option fst (renderString tpl d sc r) =
     map_option fst (request ''renderString''
                       \<lparr>template = Some tpl, data = Some (orEmptyObject d)\<rparr> sc r) \<and>
   (\<forall>res r1. request ''renderFile'' \<lparr>template = Some tpl, data = Some (orEmptyObject d)\<rparr> sc r
                = Some (Returned res, r1) \<longrightarrow>
              render tpl d sc r = Some (Returned res, closeServer r1)) \<and>
   (\<forall>res r1. request ''renderString'' \<lparr>template = Some tpl, data = Some (orEmptyObject d)\<rparr> sc r
                = Some (Returned res, r1) \<longrightarrow>
              renderString tpl d sc r = Some (Returned res, closeServer r1)) \<and>
   getMeta sc r = request ''meta'' \<lparr>template = None, data = None\<rparr> sc r"
  by (auto simp: render_def renderString_def getMeta_def split: option.splits outcome.splits)

text \<open>
  A page rendered from a file and an error page rendered from a string, on the example
  instance.
\<close>

theorem facade_delegates_witness:
  "render ''page.twig'' (Some ''{}'')
     (exampleScript [Resolved (rawResponse True [] ''<p>Hi</p>'')]) exampleRenderer
     = Some (Returned \<lparr>ok = Some True, message = None, html = Some ''<p>Hi</p>''\<rparr>,
             closeServer (exampleServed
               \<lparr>sent := [(''renderFile'', \<lparr>template = Some ''page.twig'', data = Some ''{}''\<rparr>)]\<rparr>)) \<and>
   renderString ''<p>{{ title }'' None
     (exampleScript [Resolved (rawResponse False [(''Warning'', ''Unclosed variable'')] [])])
     exampleRenderer
     = Some (Returned \<lparr>ok = Some False, message = Some ''Unclosed variable'', html = Some []\<rparr>,
             closeServer (exampleServed
               \<lparr>sent := [(''renderString'',
                           \<lparr>template = Some ''<p>{{ title }'', data = Some ''{}''\<rparr>)]\<rparr>))"
proof -
  have a: "request ''renderFile''
      \<lparr>template = Some ''page.twig'', data = Some (orEmptyObject (Some ''{}''))\<rparr>
      (exampleScript [Resolved (rawResponse True [] ''<p>Hi</p>'')]) exampleRenderer
    = Some (Returned \<lparr>ok = Some True, message = None, html = Some ''<p>Hi</p>''\<rparr>,
            exampleServed
              \<lparr>sent := [(''renderFile'', \<lparr>template = Some ''page.twig'', data = Some ''{}''\<rparr>)]\<rparr>)"
    by (simp add: example_raw example_served orEmptyObject_def)
  have b: "request ''renderString''
      \<lparr>template = Some ''<p>{{ title }'', data = Some (orEmptyObject None)\<rparr>
      (exampleScript [Resolved (rawResponse False [(''Warning'', ''Unclosed variable'')] [])])
      exampleRenderer
    = Some (Returned \<lparr>ok = Some False, message = Some ''Unclosed variable'', html = Some []\<rparr>,
            exampleServed
              \<lparr>sent := [(''renderString'',
                          \<lparr>template = Some ''<p>{{ title }'', data = Some ''{}''\<rparr>)]\<rparr>)"
    by (simp add: example_raw example_served orEmptyObject_def)
  from facade_delegates[of "''page.twig''" "Some ''{}''"
      "exampleScript [Resolved (rawResponse True [] ''<p>Hi</p>'')]" exampleRenderer] a
  have c: "render ''page.twig'' (Some ''{}'')
     (exampleScript [Resolved (rawResponse True [] ''<p>Hi</p>'')]) exampleRenderer
     = Some (Returned \<lparr>ok = Some True, message = None, html = Some ''<p>Hi</p>''\<rparr>,
             closeServer (exampleServed
               \<lparr>sent := [(''renderFile'', \<lparr>template = Some ''page.twig'', data = Some ''{}''\<rparr>)]\<rparr>))"
    by blast
  from facade_delegates[of "''<p>{{ title }''" None
      "exampleScript [Resolved (rawResponse False [(''Warning'', ''Unclosed variable'')] [])]"
      exampleRenderer] b
  have d: "renderString ''<p>{{ title }'' None
     (exampleScript [Resolved (rawResponse False [(''Warning'', ''Unclosed variable'')] [])])
     exampleRenderer
     = Some (Returned \<lparr>ok = Some False, message = Some ''Unclosed variable'', html = Some []\<rparr>,
             closeServer (exampleServed
               \<lparr>sent := [(''renderString'',
                           \<lparr>template = Some ''<p>{{ title }'', data = Some ''{}''\<rparr>)]\<rparr>))"
    by blast
  from c d show ?thesis by (simp only: simp_thms)
qed

text \<open>
  Claim C3. When \<open>render\<close> or \<open>renderString\<close> returns a result, successful or failed,
  the instance is the one \<open>request\<close> left with \<open>closeServer\<close> applied. With \<open>keepAlive\<close>
  false: if the completed requests equal the total and none is in progress,
  \<open>closeServer\<close> calls \<open>stop\<close> at once, so that, unless the worker is stopped or
  stopping already, the state is \<open>STOPPING\<close>, the worker has been sent the kill signal,
  and the state is \<open>STOPPED\<close> once \<open>stop\<close> has completed; otherwise \<open>closeServer\<close> sets
  one timer. When the timer fires, the same condition on the counters is looked at
  once more, and \<open>stop\<close> is called if it holds.
\<close>

theorem idle_shutdown:
  "(render tpl d sc r = Some (Returned res, r2) \<longrightarrow>
      (\<exists>r1. request ''renderFile'' \<lparr>template = Some tpl, data = Some (orEmptyObject d)\<rparr> sc r
               = Some (Returned res, r1) \<and> r2 = closeServer r1)) \<and>
   (renderString tpl d sc r = Some (Returned res, r2) \<longrightarrow>
      (\<exists>r1. request ''renderString'' \<lparr>template = Some tpl, data = Some (orEmptyObject d)\<rparr> sc r
               = Some (Returned res, r1) \<and> r2 = closeServer r1)) \<and>
   (keepAlive (config idle) = Some False \<and> countersIdle idle \<longrightarrow>
      closeServer idle = stopUnawaited idle \<and>
      (\<not> stopGuard idle \<longrightarrow>
         serverState (closeServer idle) = STOPPING \<and>
         (\<forall>p. phpServer idle = Some p \<longrightarrow> killed (closeServer idle) = p # killed idle) \<and>
         serverState (stopSettles (closeServer idle)) = STOPPED)) \<and>
   (keepAlive (config busy) = Some False \<and> \<not> countersIdle busy \<longrightarrow>
      closeServer busy = busy\<lparr>timers := timers busy + 1\<rparr>) \<and>
   (0 < timers due \<longrightarrow>
      timerFires due = (if countersIdle due then stopUnawaited (due\<lparr>timers := timers due - 1\<rparr>)
                        else due\<lparr>timers := timers due - 1\<rparr>))"
proof (intro conjI impI)
  assume "render tpl d sc r = Some (Returned res, r2)"
  then show "\<exists>r1. request ''renderFile'' \<lparr>template = Some tpl, data = Some (orEmptyObject d)\<rparr>
      sc r = Some (Returned res, r1) \<and> r2 = closeServer r1" by (rule render_Returned)
next
  assume "renderString tpl d sc r = Some (Returned res, r2)"
  then show "\<exists>r1. request ''renderString'' \<lparr>template = Some tpl, data = Some (orEmptyObject d)\<rparr>
      sc r = Some (Returned res, r1) \<and> r2 = closeServer r1" by (rule renderString_Returned)
next
  assume a: "keepAlive (config idle) = Some False \<and> countersIdle idle"
  then show eq: "closeServer idle = stopUnawaited idle" by (simp add: closeServer_idle)
  assume g: "\<not> stopGuard idle"
  from g show "serverState (closeServer idle) = STOPPING" by (simp add: eq stopUnawaited_state)
  from g show "\<forall>p. phpServer idle = Some p \<longrightarrow> killed (closeServer idle) = p # killed idle"
    by (simp add: eq stopUnawaited_killed)
  from g show "serverState (stopSettles (closeServer idle)) = STOPPED"
    by (simp add: eq stopUnawaited_settles)
next
  assume "keepAlive (config busy) = Some False \<and> \<not> countersIdle busy"
  then show "closeServer busy = busy\<lparr>timers := timers busy + 1\<rparr>"
    by (simp add: closeServer_busy)
next
  assume "0 < timers due"
  then show "timerFires due =
      (if countersIdle due then stopUnawaited (due\<lparr>timers := timers due - 1\<rparr>)
       else due\<lparr>timers := timers due - 1\<rparr>)" by (rule timerFires_recheck)
qed

text \<open>
  On the example instance: a page is rendered and nothing else is pending, so the
  worker on port 8001 is stopped at once; a result returned while a second request is
  in flight sets the timer, and when it fires after that request has completed, the
  worker is stopped.
\<close>

theorem idle_shutdown_witness:
  "render ''page.twig'' None
     (exampleScript [Resolved (rawResponse True [] ''<p>Hi</p>'')]) exampleRenderer
     = Some (Returned \<lparr>ok = Some True, message = None, html = Some ''<p>Hi</p>''\<rparr>,
             closeServer (exampleServed
               \<lparr>sent := [(''renderFile'', \<lparr>template = Some ''page.twig'', data = Some ''{}''\<rparr>)]\<rparr>)) \<and>
   renderString ''<p>Hi</p>'' None
     (exampleScript [Resolved (rawResponse True [] ''<p>Hi</p>'')]) exampleRenderer
     = Some (Returned \<lparr>ok = Some True, message = None, html = Some ''<p>Hi</p>''\<rparr>,
             closeServer (exampleServed
               \<lparr>sent := [(''renderString'', \<lparr>template = Some ''<p>Hi</p>'', data = Some ''{}''\<rparr>)]\<rparr>)) \<and>
   keepAlive (config exampleServed) = Some False \<and> countersIdle exampleServed \<and>
   \<not> stopGuard exampleServed \<and> phpServer exampleServed = Some 8001 \<and>
   serverState (closeServer exampleServed) = STOPPING \<and>
   killed (closeServer exampleServed) = [8001] \<and>
   serverState (stopSettles (closeServer exampleServed)) = STOPPED \<and>
   keepAlive (config exampleBusy) = Some False \<and> \<not> countersIdle exampleBusy \<and>
   closeServer exampleBusy = exampleBusy\<lparr>timers := 1\<rparr> \<and>
   0 < timers (attemptSucceeds (closeServer exampleBusy)) \<and>
   serverState (timerFires (attemptSucceeds (closeServer exampleBusy))) = STOPPING"
proof -
  have a: "render ''page.twig'' None
     (exampleScript [Resolved (rawResponse True [] ''<p>Hi</p>'')]) exampleRenderer
     = Some (Returned \<lparr>ok = Some True, message = None, html = Some ''<p>Hi</p>''\<rparr>,
             closeServer (exampleServed
               \<lparr>sent := [(''renderFile'', \<lparr>template = Some ''page.twig'', data = Some ''{}''\<rparr>)]\<rparr>))"
    by (simp add: render_def example_raw example_served orEmptyObject_def)
  have b: "renderString ''<p>Hi</p>'' None
     (exampleScript [Resolved (rawResponse True [] ''<p>Hi</p>'')]) exampleRenderer
     = Some (Returned \<lparr>ok = Some True, message = None, html = Some ''<p>Hi</p>''\<rparr>,
             closeServer (exampleServed
               \<lparr>sent := [(''renderString'', \<lparr>template = Some ''<p>Hi</p>'', data = Some ''{}''\<rparr>)]\<rparr>))"
    by (simp add: renderString_def example_raw example_served orEmptyObject_def)
  have c: "keepAlive (config exampleServed) = Some False" "countersIdle exampleServed"
    "\<not> stopGuard exampleServed" "phpServer exampleServed = Some 8001"
    "killed exampleServed = []"
    by (simp_all add: exampleServed_def exampleAdmitted_def exampleRenderer_def
        countersIdle_def stopGuard_def)
  have d: "keepAlive (config exampleBusy) = Some False" "\<not> countersIdle exampleBusy"
    "timers exampleBusy = 0"
    by (simp_all add: exampleBusy_def exampleAdmitted_def exampleRenderer_def countersIdle_def)
  have e: "closeServer exampleBusy = exampleBusy\<lparr>timers := 1\<rparr>"
    using d by (simp add: closeServer_def)
  have f: "0 < timers (attemptSucceeds (closeServer exampleBusy))"
    "countersIdle (attemptSucceeds (closeServer exampleBusy))"
    "\<not> stopGuard (attemptSucceeds (closeServer exampleBusy)\<lparr>timers := 0\<rparr>)"
    unfolding e
    by (simp_all add: attemptSucceeds_def exampleBusy_def exampleAdmitted_def
        countersIdle_def stopGuard_def)
  note t = idle_shutdown[of "''page.twig''" None
      "exampleScript [Resolved (rawResponse True [] ''<p>Hi</p>'')]" exampleRenderer
      "\<lparr>ok = Some True, message = None, html = Some ''<p>Hi</p>''\<rparr>"
      "closeServer (exampleServed
         \<lparr>sent := [(''renderFile'', \<lparr>template = Some ''page.twig'', data = Some ''{}''\<rparr>)]\<rparr>)"
      exampleServed exampleBusy "attemptSucceeds (closeServer exampleBusy)"]
  from t c(1,2,3) have g1: "serverState (closeServer exampleServed) = STOPPING" by blast
  from t c(1,2,3,4) have "killed (closeServer exampleServed) = 8001 # killed exampleServed"
    by blast
  with c(5) have g2: "killed (closeServer exampleServed) = [8001]" by simp
  from t c(1,2,3) have g3: "serverState (stopSettles (closeServer exampleServed)) = STOPPED"
    by blast
  from t f(1) have "timerFires (attemptSucceeds (closeServer exampleBusy))
      = (if countersIdle (attemptSucceeds (closeServer exampleBusy))
         then stopUnawaited (attemptSucceeds (closeServer exampleBusy)
                \<lparr>timers := timers (attemptSucceeds (closeServer exampleBusy)) - 1\<rparr>)
         else attemptSucceeds (closeServer exampleBusy)
                \<lparr>timers := timers (attemptSucceeds (closeServer exampleBusy)) - 1\<rparr>)"
    by blast
  with f(2) have "timerFires (attemptSucceeds (closeServer exampleBusy))
      = stopUnawaited (attemptSucceeds (closeServer exampleBusy)
          \<lparr>timers := timers (attemptSucceeds (closeServer exampleBusy)) - 1\<rparr>)"
    by (simp only: if_True)
  moreover have "timers (attemptSucceeds (closeServer exampleBusy)) - 1 = 0"
    by (simp add: e attemptSucceeds_def)
  ultimately have h: "serverState (timerFires (attemptSucceeds (closeServer exampleBusy))) = STOPPING"
    using f(3) by (simp add: stopUnawaited_state)
  from a b c(1,2,3,4) d(1,2) e f(1) g1 g2 g3 h show ?thesis by (simp only: simp_thms)
qed

section \<open>Properties of calls in flight together\<close>

text \<open>Nothing that runs apart from \<open>request\<close> changes a counter.\<close>

lemma counters_cleanupConfigFile: "counters (cleanupConfigFile r) = counters r"
  by (simp add: counters_def cleanupConfigFile_def split: option.splits)

lemma counters_stopBegins: "counters (stopBegins r) = counters r"
  by (simp add: counters_def stopBegins_def Let_def split: option.splits)

lemma counters_stopCompletes: "counters (stopCompletes r) = counters r"
  using counters_cleanupConfigFile[of r] by (simp add: counters_def stopCompletes_def)

lemma counters_stopUnawaited: "counters (stopUnawaited r) = counters r"
  using counters_stopBegins[of r] by (simp add: counters_def stopUnawaited_def)

lemma counters_stopSettles: "counters (stopSettles r) = counters r"
  using counters_stopCompletes[of r] by (simp add: counters_def stopSettles_def)

lemma counters_timerFires: "counters (timerFires r) = counters r"
  using counters_stopUnawaited[of "r\<lparr>timers := timers r - 1\<rparr>"]
  by (simp add: counters_def timerFires_def Let_def)

lemma counters_closeServer: "counters (closeServer r) = counters r"
  using counters_stopUnawaited[of r] by (simp add: counters_def closeServer_def)

lemma counters_onExit: "counters (onExit p r) = counters r"
  using counters_cleanupConfigFile[of r] by (simp add: counters_def onExit_def)

lemma counters_launch: "launch answers w r = Some (out, r1) \<Longrightarrow> counters r1 = counters r"
  by (auto simp: launch_def Let_def counters_def spawnWorker_def
      split: option.splits if_splits dest!: getOpenPort_Some)

lemma counters_supervise: "supervise e r = Some r1 \<Longrightarrow> counters r1 = counters r"
proof (cases e)
  case (Launches answers w)
  assume "supervise e r = Some r1"
  with Launches obtain out where "launch answers w r = Some (out, r1)" by auto
  then show ?thesis by (rule counters_launch)
qed (auto simp: counters_stopUnawaited counters_stopSettles counters_timerFires
      counters_closeServer counters_onExit,
     auto simp: counters_def initBegins_def checkIfServerIsReady_def onClose_def
      split: settled.splits)

lemma unfinished_append:
  "unfinished (cs @ [c]) = unfinished cs + (if place c \<noteq> Finished then 1 else 0)"
  by (simp add: unfinished_def)

lemma unfinished_update:
  "i < length cs \<Longrightarrow>
     unfinished (cs[i := c]) + (if place (cs ! i) \<noteq> Finished then 1 else 0) =
     unfinished cs + (if place c \<noteq> Finished then 1 else 0)"
proof (induction cs arbitrary: i)
  case Nil
  then show ?case by simp
next
  case (Cons a cs)
  show ?case
  proof (cases i)
    case 0
    then show ?thesis by (simp add: unfinished_def)
  next
    case (Suc j)
    with Cons.prems have "j < length cs" by simp
    from Cons.IH[OF this] Suc show ?thesis by (simp add: unfinished_def)
  qed
qed

text \<open>
  What a call does to the counters when it resumes: only the settling of a fetch
  touches the completed requests, by one and only when the call finishes with it.
\<close>

lemma passGate_counts:
  "passGate c r = (c1, r1) \<Longrightarrow>
     place c1 \<noteq> Finished \<and> totalRequests r1 = totalRequests r \<and>
     completedRequests r1 = completedRequests r"
  by (auto simp: passGate_def attemptBegins_def split: if_splits)

lemma passReady_counts:
  "passReady c r = (c1, r1) \<Longrightarrow>
     place c1 \<noteq> Finished \<and> totalRequests r1 = totalRequests r \<and>
     completedRequests r1 = completedRequests r"
  by (auto simp: passReady_def split: if_splits dest: passGate_counts)

lemma afterFetch_counts:
  "afterFetch fetched attempt c r = (c1, r1) \<Longrightarrow>
     totalRequests r1 = totalRequests r \<and>
     completedRequests r1 + (if place c1 \<noteq> Finished then 1 else 0) \<le> completedRequests r + 1"
  by (auto simp: afterFetch_def attemptBegins_def attemptFails_def attemptSucceeds_def Let_def
      split: settled.splits if_splits)

lemma balanced_resumed:
  assumes "balanced s" and "i < length (calls s)" and "place (calls s ! i) \<noteq> Finished"
    and "totalRequests r1 = totalRequests (self s)"
    and "completedRequests r1 + (if place c1 \<noteq> Finished then 1 else 0)
           \<le> completedRequests (self s) + 1"
  shows "balanced (resumed i (c1, r1) s)"
  using assms unfinished_update[OF assms(2), of c1]
  by (auto simp: balanced_def resumed_def split: if_splits)

lemma balanced_step:
  assumes "balanced s" and "step m s = Some s1"
  shows "balanced s1"
proof (cases m)
  case (Calls type b)
  obtain c1 r1 where pr: "passReady \<lparr>callType = type, callBody = b, place = AwaitingInit\<rparr>
      (requestEnters (self s)) = (c1, r1)" by force
  from passReady_counts[OF pr] assms Calls pr show ?thesis
    by (auto simp: balanced_def Let_def unfinished_append requestEnters_def initBegins_def
        split: if_splits)
next
  case (InitReturns i)
  with assms(2) have i: "i < length (calls s)" "place (calls s ! i) = AwaitingInit"
    and s1: "s1 = resumed i (passReady (calls s ! i) (self s)) s"
    by (auto split: if_splits)
  obtain c1 r1 where pr: "passReady (calls s ! i) (self s) = (c1, r1)" by force
  from passReady_counts[OF pr] show ?thesis
    unfolding s1 pr using assms(1) i by (intro balanced_resumed) auto
next
  case (InitThrows i)
  with assms(2) have i: "i < length (calls s)" "place (calls s ! i) = AwaitingInit"
    and s1: "s1 = resumed i ((calls s ! i)\<lparr>place := Finished\<rparr>, self s) s"
    by (auto split: if_splits)
  show ?thesis unfolding s1 using assms(1) i by (intro balanced_resumed) auto
next
  case (Wakes i)
  with assms(2) consider
    (ready) "i < length (calls s)" "place (calls s ! i) = PollingReady"
      "s1 = resumed i (passReady (calls s ! i) (self s)) s"
  | (gate) "i < length (calls s)" "place (calls s ! i) = PollingGate"
      "s1 = resumed i (passGate (calls s ! i) (self s)) s"
    by (auto split: if_splits)
  then show ?thesis
  proof cases
    case ready
    obtain c1 r1 where pr: "passReady (calls s ! i) (self s) = (c1, r1)" by force
    from passReady_counts[OF pr] show ?thesis
      unfolding ready(3) pr using assms(1) ready(1,2) by (intro balanced_resumed) auto
  next
    case gate
    obtain c1 r1 where pr: "passGate (calls s ! i) (self s) = (c1, r1)" by force
    from passGate_counts[OF pr] show ?thesis
      unfolding gate(3) pr using assms(1) gate(1,2) by (intro balanced_resumed) auto
  qed
next
  case (FetchSettles i fetched)
  with assms(2) obtain attempt where i: "i < length (calls s)"
    "place (calls s ! i) = InFlight attempt"
    and s1: "s1 = resumed i (afterFetch fetched attempt (calls s ! i) (self s)) s"
    by (auto split: if_splits pc.splits)
  obtain c1 r1 where pr: "afterFetch fetched attempt (calls s ! i) (self s) = (c1, r1)" by force
  from afterFetch_counts[OF pr] show ?thesis
    unfolding s1 pr using assms(1) i by (intro balanced_resumed) auto
next
  case (Elsewhere e)
  with assms(2) obtain r1 where "supervise e (self s) = Some r1" "s1 = s\<lparr>self := r1\<rparr>"
    by (auto split: option.splits)
  with counters_supervise[OF this(1)] assms(1) show ?thesis
    by (simp add: balanced_def counters_def)
qed

lemma balanced_run: "balanced s \<Longrightarrow> run ms s = Some s1 \<Longrightarrow> balanced s1"
  by (induction ms arbitrary: s) (auto split: option.splits dest: balanced_step)

text \<open>
  Claim C1. Take an instance as the constructor made it and let any moves run on it:
  any number of calls of \<open>request\<close> (which \<open>render\<close>, \<open>renderString\<close> and \<open>getMeta\<close> are),
  overlapping in any way, their waits ending and their fetches settling in any order
  and with any answer, and the supervisor's callbacks in between. In every state that
  can be reached the completed requests do not exceed the total: the total is the
  number of calls made, each counted once when it entered, and the completed requests
  together with the calls not yet finished do not exceed it, a call adding one to the
  completed requests at most once, when its fetch has succeeded and it finishes.
\<close>

theorem completed_le_total:
  assumes "constructor h userConfig = Inr r" and "run ms (boot r) = Some s"
  shows "completedRequests (self s) \<le> totalRequests (self s) \<and>
         totalRequests (self s) = int (length (calls s)) \<and>
         completedRequests (self s) + int (unfinished (calls s)) \<le> totalRequests (self s)"
proof -
  from constructor_counters[OF assms(1)] have "balanced (boot r)"
    by (simp add: balanced_def boot_def unfinished_def)
  from balanced_run[OF this assms(2)] show ?thesis by (auto simp: balanced_def)
qed

text \<open>
  The two calls of the example, in flight together: in the end both are counted, both
  are completed, and the worker has been stopped.
\<close>

lemma example_run:
  "map_option (\<lambda>s. (counters (self s), map place (calls s), serverState (self s)))
     (run exampleMoves (boot exampleRenderer))
   = Some ((2, 2, 0), [Finished, Finished], STOPPED)"
  by (simp add: exampleMoves_def boot_def exampleRenderer_def exampleBody_def counters_def
      requestEnters_def initBegins_def passReady_def passGate_def gateClosed_def
      attemptBegins_def attemptSucceeds_def attemptFails_def afterFetch_def resumed_def
      readResponse_def headersGet_def rawResponse_def attempts_def launch_def spawnWorker_def
      checkIfServerIsReady_def closeServer_def countersIdle_def stopUnawaited_def
      stopGuard_def stopBegins_def stopSettles_def stopCompletes_def cleanupConfigFile_def
      timerFires_def Let_def)

theorem completed_le_total_witness:
  "constructor exampleHost exampleConfig = Inr exampleRenderer \<and>
   run exampleMoves (boot exampleRenderer) \<noteq> None \<and>
   completedRequests (self (the (run exampleMoves (boot exampleRenderer)))) = 2 \<and>
   totalRequests (self (the (run exampleMoves (boot exampleRenderer)))) = 2 \<and>
   completedRequests (self (the (run exampleMoves (boot exampleRenderer))))
     \<le> totalRequests (self (the (run exampleMoves (boot exampleRenderer))))"
proof -
  from example_run obtain s where s: "run exampleMoves (boot exampleRenderer) = Some s"
    and c: "counters (self s) = (2, 2, 0)" by auto
  from completed_le_total[OF example_constructed s] s c example_constructed
  show ?thesis by (simp add: counters_def)
qed

end
